theory Spec2Isabelle
  imports Main
begin

section \<open>DBSentinel: a shallow embedding of \<open>src/index.ts\<close>\<close>

text \<open>
  The development follows \<open>src/index.ts\<close> function by function. A JavaScript string
  is modelled as a \<open>string\<close>, the bytes of its UTF-8 encoding: an ASCII character is
  the byte of its code, and no byte below 128 occurs in the encoding of any other
  character. On this encoding \<open>startsWith\<close> and \<open>includes\<close> with ASCII arguments,
  string concatenation, \<open>replace(/-/g, '_')\<close> and the regular expression of line 73
  (whose classes and letters are ASCII, and whose \<open>i\<close> flag never lets a non-ASCII
  character match an ASCII letter) are operations on bytes, and they are defined below.
  \<open>String.prototype.trim\<close> and \<open>String.prototype.toUpperCase\<close> depend on the white
  space and case tables of Unicode, which are not part of the repository: they are taken
  from the environment (\<open>jsTrim\<close> and \<open>jsToUpperCase\<close>), so that what is proved of
  the validator holds for the builtins of the runtime whatever they do outside ASCII.
  \<open>includes\<close> is a keyword of Isabelle, so the builtin is called \<open>includes_str\<close> here.
\<close>

subsection \<open>Errors\<close>

text \<open>
  Every \<open>throw\<close> site of the source is one constructor; the comment gives the message of
  the JavaScript \<open>Error\<close>. \<open>ExternalError\<close> is a rejection coming from the database
  driver or from the queue transport, or what a listener throws, with its message.
\<close>

datatype error =
    OnlySelectAllowed            \<comment> \<open>'Only SELECT queries are allowed.'\<close>
  | SemicolonsNotPermitted       \<comment> \<open>'Semicolons are not permitted for security reasons.'\<close>
  | ForbiddenKeyword             \<comment> \<open>'Forbidden SQL keyword detected in the query.'\<close>
  | MaxQueueSizeReached int      \<comment> \<open>'Maximum queue size of N reached.'\<close>
  | UnableToEnqueue string       \<comment> \<open>'Unable to enqueue job: ' + message\<close>
  | ErrorRetrievingTableName string  \<comment> \<open>'Error retrieving table name: ' + message\<close>
  | ExternalError string

subsection \<open>Type mapper (\<open>mapPostgresType\<close>, lines 33-59)\<close>

definition mapPostgresType :: "int \<Rightarrow> string" where
  "mapPostgresType pgTypeId =
    (if pgTypeId = 20 \<or> pgTypeId = 21 \<or> pgTypeId = 23 then ''INTEGER''
     else if pgTypeId = 700 \<or> pgTypeId = 701 then ''DOUBLE PRECISION''
     else if pgTypeId = 1700 then ''NUMERIC''
     else if pgTypeId = 16 then ''BOOLEAN''
     else if pgTypeId = 1082 then ''DATE''
     else if pgTypeId = 1114 \<or> pgTypeId = 1184 then ''TIMESTAMP''
     else if pgTypeId = 114 \<or> pgTypeId = 3802 then ''JSONB''
     else ''TEXT'')"

subsection \<open>String builtins\<close>

text \<open>
  \<open>asciiTrim\<close> and \<open>asciiToUpperCase\<close> are what \<open>trim\<close> and \<open>toUpperCase\<close> do on
  text of ASCII characters: the first strips the six ASCII white space characters at
  both ends, the second maps \<open>a\<close>..\<open>z\<close> to \<open>A\<close>..\<open>Z\<close>. They stand for the builtins in
  the concrete environments further down, whose inputs are ASCII. \<open>toUpperChar\<close> is
  also the case folding of the \<open>i\<close> flag of the regular expression.
\<close>

definition isWhiteSpace :: "char \<Rightarrow> bool" where
  "isWhiteSpace c = (c \<in> set [CHR 0x09, CHR 0x0A, CHR 0x0B, CHR 0x0C, CHR 0x0D, CHR '' ''])"

definition asciiTrim :: "string \<Rightarrow> string" where
  "asciiTrim s = rev (dropWhile isWhiteSpace (rev (dropWhile isWhiteSpace s)))"

definition toUpperChar :: "char \<Rightarrow> char" where
  "toUpperChar c =
     (let n = (of_char c :: nat) in if 97 \<le> n \<and> n \<le> 122 then char_of (n - 32) else c)"

definition asciiToUpperCase :: "string \<Rightarrow> string" where
  "asciiToUpperCase s = map toUpperChar s"

definition startsWith :: "string \<Rightarrow> string \<Rightarrow> bool" where
  "startsWith s p = (take (length p) s = p)"

definition includes_str :: "string \<Rightarrow> char \<Rightarrow> bool" where
  "includes_str s c = (c \<in> set s)"

subsection \<open>The regular expression \<open>/\b(DROP|UPDATE|DELETE|INSERT|ALTER)\b/i\<close>\<close>

text \<open>
  \<open>\b\<close> is the boundary between a word character (\<open>[A-Za-z0-9_]\<close>) and a non-word
  character or an end of the string. The alternatives consist of word characters only, so
  the match at a position needs a non-word character (or the start) before it and a
  non-word character (or the end) after the keyword. \<open>forbiddenScan\<close> walks over the
  string; its flag says whether the previous character was a word character.
\<close>

definition isWordChar :: "char \<Rightarrow> bool" where
  "isWordChar c =
     (let n = (of_char c :: nat)
      in (48 \<le> n \<and> n \<le> 57) \<or> (65 \<le> n \<and> n \<le> 90) \<or> n = 95 \<or> (97 \<le> n \<and> n \<le> 122))"

definition forbiddenKeywords :: "string list" where
  "forbiddenKeywords = [''DROP'', ''UPDATE'', ''DELETE'', ''INSERT'', ''ALTER'']"

definition matchesKeywordAt :: "string \<Rightarrow> string \<Rightarrow> bool" where
  "matchesKeywordAt kw s =
     (map toUpperChar (take (length kw) s) = kw \<and>
      (case drop (length kw) s of [] \<Rightarrow> True | c # _ \<Rightarrow> \<not> isWordChar c))"

fun forbiddenScan :: "bool \<Rightarrow> string \<Rightarrow> bool" where
  "forbiddenScan prevWord [] = False"
| "forbiddenScan prevWord (c # cs) =
     ((\<not> prevWord \<and> list_ex (\<lambda>kw. matchesKeywordAt kw (c # cs)) forbiddenKeywords)
      \<or> forbiddenScan (isWordChar c) cs)"

definition forbiddenRegex_test :: "string \<Rightarrow> bool" where
  "forbiddenRegex_test query = forbiddenScan False query"

subsection \<open>Result table name (line 189)\<close>

text \<open>\<open>jobId.replace(/-/g, '_')\<close>: every hyphen becomes an underscore.\<close>

definition replaceHyphens :: "string \<Rightarrow> string" where
  "replaceHyphens jobId = map (\<lambda>c. if c = CHR ''-'' then CHR ''_'' else c) jobId"

definition resultTableName :: "string \<Rightarrow> string" where
  "resultTableName jobId = ''query_results_'' @ replaceHyphens jobId"

text \<open>
  The format of \<open>crypto.randomUUID()\<close> (line 142), the only source of job ids: 36
  characters, hyphens at positions 8, 13, 18 and 23, lower-case hexadecimal digits
  everywhere else.
\<close>

definition hexdigit :: "char \<Rightarrow> bool" where
  "hexdigit c = (c \<in> set ''0123456789abcdef'')"

definition isUUID :: "string \<Rightarrow> bool" where
  "isUUID s =
     list_all2 (\<lambda>p c. if p = CHR ''-'' then c = CHR ''-'' else hexdigit c)
       ''xxxxxxxx-xxxx-xxxx-xxxx-xxxxxxxxxxxx'' s"

text \<open>
  The two notions the specification uses for the table name. An identifier is a letter or
  an underscore followed by letters, digits and underscores, at most 63 characters long
  (the limit of PostgreSQL). \<open>specTableName\<close> follows the specification's words: the
  fixed prefix, then the id with every non-identifier character replaced by an underscore.
\<close>

definition validIdentifier :: "string \<Rightarrow> bool" where
  "validIdentifier s =
     (case s of [] \<Rightarrow> False
      | c # cs \<Rightarrow> isWordChar c \<and> \<not> (48 \<le> (of_char c :: nat) \<and> (of_char c :: nat) \<le> 57)
                  \<and> list_all isWordChar cs \<and> length s \<le> 63)"

definition specTableName :: "string \<Rightarrow> string" where
  "specTableName jobId =
     ''query_results_'' @ map (\<lambda>c. if isWordChar c then c else CHR ''_'') jobId"

subsection \<open>Values, jobs and the database\<close>

text \<open>
  A JavaScript value as far as the source looks at it: \<open>null\<close>, \<open>undefined\<close>, or any
  other value, given by the text that \<open>String(v)\<close> returns for it.
\<close>

datatype jsval = JSNull | JSUndefined | JSValue string

text \<open>
  The result of the driver for a statement: \<open>fields\<close> are the pairs
  \<open>(name, dataTypeID)\<close>, \<open>rows\<close> are objects, given as the list of their keys and
  values in the order of \<open>Object.keys\<close>.
\<close>

datatype query_result =
  QueryResult (fields: "(string \<times> int) list") (rows: "(string \<times> jsval) list list")

text \<open>
  The statements the source sends to the database. \<open>Query\<close> is a statement whose text
  comes from the caller (lines 187 and 218); the others are the fixed statements of the
  source with their varying parts.
\<close>

datatype stmt =
    Query string "jsval list"
  | CreateJobMetadata                              \<comment> \<open>lines 191-197\<close>
  | CreateTable string "(string \<times> string) list"   \<comment> \<open>lines 206-211: table, columns with types\<close>
  | InsertJobMetadata string string                \<comment> \<open>lines 213-216: job id, table\<close>
  | InsertRow string "string list" "jsval list"    \<comment> \<open>lines 225-234: table, columns, values\<close>
  | SelectTableName string                         \<comment> \<open>lines 161-164: job id\<close>
  | SelectOldJobs int                              \<comment> \<open>lines 258-263: the TTL in hours\<close>
  | DropTableIfExists string                       \<comment> \<open>line 268\<close>
  | DeleteJobMetadata string                       \<comment> \<open>line 269: job id\<close>

record metadata_row =
  job_id :: string
  table_name :: string
  created_at :: int

text \<open>
  The database: the table \<open>job_metadata\<close> (\<open>None\<close> until it is created; \<open>job_id\<close>
  is its primary key), the other tables by name, each with its columns and rows, and the
  statements received so far. Timestamps are microseconds.
\<close>

record database =
  job_metadata :: "metadata_row list option"
  tables :: "(string \<times> (string \<times> string) list \<times> (string \<times> jsval) list list) list"
  executed :: "stmt list"

text \<open>
  What the code does not decide: the two string builtins of the runtime, the next UUID,
  the failures of the queue transport, of the connection pool and of single statements (a
  failure is given by its message; the failure of a statement may depend on how many
  statements were sent before), the answer of the database to a caller's query, the clock
  of the database, and the listeners: \<open>listenerFault\<close> says, for the name of an event,
  whether a listener of that event throws when the event is raised, and with which
  message.
\<close>

record env =
  jsTrim :: "string \<Rightarrow> string"
  jsToUpperCase :: "string \<Rightarrow> string"
  nextUUID :: string
  waitingCountFault :: "string option"
  addFault :: "string option"
  connectFault :: "string option"
  stmtFault :: "nat \<Rightarrow> stmt \<Rightarrow> string option"
  answer :: "string \<Rightarrow> jsval list \<Rightarrow> query_result"
  clock :: int
  listenerFault :: "string \<Rightarrow> string option"

subsection \<open>Query validator (\<open>validateSelectQuery\<close>, lines 65-77)\<close>

definition validateSelectQuery :: "env \<Rightarrow> string \<Rightarrow> error + unit" where
  "validateSelectQuery env query =
     (let normalized = jsToUpperCase env (jsTrim env query)
      in if \<not> startsWith normalized ''SELECT '' then Inl OnlySelectAllowed
         else if includes_str normalized (CHR '';'') then Inl SemicolonsNotPermitted
         else if forbiddenRegex_test query then Inl ForbiddenKeyword
         else Inr ())"

text \<open>\<open>job.data\<close>, the queue entry built at lines 145-146.\<close>

record job_data =
  jobId :: string
  query :: string
  params :: "jsval list"

text \<open>
  \<open>await\<close> inside a \<open>try\<close> block: a rejected call skips the rest of the block.
\<close>

definition andThen ::
  "('e + 'a) \<times> 's \<Rightarrow> ('a \<Rightarrow> 's \<Rightarrow> ('e + 'b) \<times> 's) \<Rightarrow> ('e + 'b) \<times> 's" where
  "andThen m f = (case m of (Inl e, s) \<Rightarrow> (Inl e, s) | (Inr x, s) \<Rightarrow> f x s)"

text \<open>
  \<open>send\<close> hands a statement to the database: the statement is recorded, and the
  environment says whether it fails for a reason outside the model.
\<close>

definition send :: "env \<Rightarrow> stmt \<Rightarrow> database \<Rightarrow> string option \<times> database" where
  "send env st db = (stmtFault env (length (executed db)) st, db\<lparr>executed := executed db @ [st]\<rparr>)"

definition client_query ::
  "env \<Rightarrow> string \<Rightarrow> jsval list \<Rightarrow> database \<Rightarrow> (string + query_result) \<times> database" where
  "client_query env text ps db =
     (case send env (Query text ps) db of
        (Some m, db') \<Rightarrow> (Inl m, db')
      | (None, db') \<Rightarrow> (Inr (answer env text ps), db'))"

definition createJobMetadata :: "env \<Rightarrow> database \<Rightarrow> (string + unit) \<times> database" where
  "createJobMetadata env db =
     (case send env CreateJobMetadata db of
        (Some m, db') \<Rightarrow> (Inl m, db')
      | (None, db') \<Rightarrow>
          (Inr (), db'\<lparr>job_metadata :=
                       Some (case job_metadata db' of None \<Rightarrow> [] | Some ms \<Rightarrow> ms)\<rparr>))"

definition createTable ::
  "env \<Rightarrow> string \<Rightarrow> (string \<times> string) list \<Rightarrow> database \<Rightarrow> (string + unit) \<times> database" where
  "createTable env tn cols db =
     (case send env (CreateTable tn cols) db of
        (Some m, db') \<Rightarrow> (Inl m, db')
      | (None, db') \<Rightarrow>
          if tn \<in> set (map fst (tables db')) then (Inl ''relation already exists'', db')
          else (Inr (), db'\<lparr>tables := tables db' @ [(tn, cols, [])]\<rparr>))"

definition insertJobMetadata ::
  "env \<Rightarrow> string \<Rightarrow> string \<Rightarrow> database \<Rightarrow> (string + unit) \<times> database" where
  "insertJobMetadata env jid tn db =
     (case send env (InsertJobMetadata jid tn) db of
        (Some m, db') \<Rightarrow> (Inl m, db')
      | (None, db') \<Rightarrow>
          (case job_metadata db' of
             None \<Rightarrow> (Inl ''relation job_metadata does not exist'', db')
           | Some ms \<Rightarrow>
               if jid \<in> set (map job_id ms) then (Inl ''duplicate key value'', db')
               else (Inr (), db'\<lparr>job_metadata :=
                       Some (ms @ [\<lparr>job_id = jid, table_name = tn, created_at = clock env\<rparr>])\<rparr>)))"

definition insertRow ::
  "env \<Rightarrow> string \<Rightarrow> string list \<Rightarrow> jsval list \<Rightarrow> database \<Rightarrow> (string + unit) \<times> database" where
  "insertRow env tn colNames vals db =
     (case send env (InsertRow tn colNames vals) db of
        (Some m, db') \<Rightarrow> (Inl m, db')
      | (None, db') \<Rightarrow>
          if tn \<in> set (map fst (tables db')) then
            (Inr (), db'\<lparr>tables :=
               map (\<lambda>(n, cols, rs). if n = tn then (n, cols, rs @ [zip colNames vals]) else (n, cols, rs))
                 (tables db')\<rparr>)
          else (Inl ''relation does not exist'', db'))"


text \<open>\<open>created_at < NOW() - INTERVAL 'ttl hour'\<close>, an hour being 3600000000 microseconds.\<close>

definition isOld :: "env \<Rightarrow> int \<Rightarrow> metadata_row \<Rightarrow> bool" where
  "isOld env ttl r = (created_at r < clock env - ttl * 3600000000)"

definition selectOldJobs ::
  "env \<Rightarrow> int \<Rightarrow> database \<Rightarrow> (string + (string \<times> string) list) \<times> database" where
  "selectOldJobs env ttl db =
     (case send env (SelectOldJobs ttl) db of
        (Some m, db') \<Rightarrow> (Inl m, db')
      | (None, db') \<Rightarrow>
          (case job_metadata db' of
             None \<Rightarrow> (Inl ''relation job_metadata does not exist'', db')
           | Some ms \<Rightarrow>
               (Inr (map (\<lambda>r. (job_id r, table_name r)) (filter (isOld env ttl) ms)), db')))"

definition dropTableIfExists :: "env \<Rightarrow> string \<Rightarrow> database \<Rightarrow> (string + unit) \<times> database" where
  "dropTableIfExists env tn db =
     (case send env (DropTableIfExists tn) db of
        (Some m, db') \<Rightarrow> (Inl m, db')
      | (None, db') \<Rightarrow> (Inr (), db'\<lparr>tables := filter (\<lambda>t. fst t \<noteq> tn) (tables db')\<rparr>))"

definition deleteJobMetadata :: "env \<Rightarrow> string \<Rightarrow> database \<Rightarrow> (string + unit) \<times> database" where
  "deleteJobMetadata env jid db =
     (case send env (DeleteJobMetadata jid) db of
        (Some m, db') \<Rightarrow> (Inl m, db')
      | (None, db') \<Rightarrow>
          (case job_metadata db' of
             None \<Rightarrow> (Inl ''relation job_metadata does not exist'', db')
           | Some ms \<Rightarrow>
               (Inr (), db'\<lparr>job_metadata := Some (filter (\<lambda>r. job_id r \<noteq> jid) ms)\<rparr>)))"

subsection \<open>The class \<open>DBSentinel\<close> (lines 79-278)\<close>

text \<open>
  The payload of an event, and a line written by \<open>console.error\<close>.
\<close>

datatype payload =
    CompletedInfo string string     \<comment> \<open>\<open>{ jobId, tableName }\<close>, line 237\<close>
  | FailureInfo error               \<comment> \<open>the error, line 240\<close>

datatype console_line =
    ErrorDroppingTable string string      \<comment> \<open>'Error dropping table:', table_name, dropError\<close>
  | ErrorDuringCleanup string             \<comment> \<open>'Error during table cleanup:', err\<close>

text \<open>
  The fields of the class. \<open>queryQueue\<close> holds the entries that wait for a worker,
  oldest first; \<open>cleanupTimer\<close> is \<open>None\<close> for \<open>null\<close> and holds the interval of the
  timer otherwise. \<open>emitted\<close> collects the events raised with \<open>this.emit\<close> as pairs of
  event name and payload, \<open>console\<close> the lines written with \<open>console.error\<close>.
\<close>

record DBSentinel =
  dbPool :: database
  queryQueue :: "job_data list"
  concurrency :: int
  maxQueueSize :: int
  cleanupIntervalMs :: int
  tableTTLHours :: int
  cleanupTimer :: "int option"
  initialized :: bool
  emitted :: "(string \<times> payload) list"
  console :: "console_line list"

definition SENTINEL_JOB_COMPLETED :: "string \<Rightarrow> string" where
  "SENTINEL_JOB_COMPLETED jid = ''job-completed:'' @ jid"

definition SENTINEL_JOB_FAILED :: "string \<Rightarrow> string" where
  "SENTINEL_JOB_FAILED jid = ''job-failed:'' @ jid"

text \<open>The field initialisers of lines 82-87, with an empty queue and a fresh database.\<close>

definition newDBSentinel :: DBSentinel where
  "newDBSentinel =
     \<lparr>dbPool = \<lparr>job_metadata = None, tables = [], executed = []\<rparr>,
      queryQueue = [], concurrency = 1, maxQueueSize = 100, cleanupIntervalMs = 3600000,
      tableTTLHours = 24, cleanupTimer = None, initialized = False, emitted = [],
      console = []\<rparr>"

text \<open>\<open>createQueryJob\<close>, lines 134-157.\<close>

definition getWaitingCount :: "env \<Rightarrow> DBSentinel \<Rightarrow> error + nat" where
  "getWaitingCount env s =
     (case waitingCountFault env of
        Some m \<Rightarrow> Inl (ExternalError m)
      | None \<Rightarrow> Inr (length (queryQueue s)))"

definition createQueryJob ::
  "env \<Rightarrow> string \<Rightarrow> jsval list \<Rightarrow> DBSentinel \<Rightarrow> (error + string) \<times> DBSentinel" where
  "createQueryJob env q ps s =
     (case getWaitingCount env s of
        Inl e \<Rightarrow> (Inl e, s)
      | Inr waitingCount \<Rightarrow>
          if int waitingCount \<ge> maxQueueSize s
          then (Inl (MaxQueueSizeReached (maxQueueSize s)), s)
          else
            (case validateSelectQuery env q of
               Inl e \<Rightarrow> (Inl e, s)
             | Inr _ \<Rightarrow>
                 (let jid = nextUUID env
                  in case addFault env of
                       Some m \<Rightarrow> (Inl (UnableToEnqueue m), s)
                     | None \<Rightarrow>
                         (Inr jid,
                          s\<lparr>queryQueue :=
                              queryQueue s @ [\<lparr>jobId = jid, query = q, params = ps\<rparr>]\<rparr>))))"


text \<open>
  \<open>handleJob\<close>, lines 180-245. \<open>insertRows\<close> is the loop of lines 221-235,
  \<open>handleJob_try\<close> the \<open>try\<close> block up to the last statement sent to the database
  (lines 186-235); it returns the table name or the message of the failed call.
  \<open>emit\<close> is \<open>this.emit\<close>: the event is raised, and if a listener throws, \<open>emit\<close>
  throws. \<open>handleJob_catch\<close> is the \<open>catch\<close> block (lines 239-241): the failure event
  is raised and the error thrown again, unless a listener of the failure event throws
  first. \<open>handleJob\<close> takes the connection outside the \<open>try\<close> block (line 182); the
  completion event is raised inside it (line 237), so a throwing listener of that event
  leads to the \<open>catch\<close> block. The return of the connection to the pool (line 243) is
  not part of the model.
\<close>

definition rowValue :: "jsval \<Rightarrow> jsval" where
  "rowValue v = (case v of JSValue t \<Rightarrow> JSValue t | _ \<Rightarrow> JSNull)"

fun insertRows ::
  "env \<Rightarrow> string \<Rightarrow> (string \<times> jsval) list list \<Rightarrow> database \<Rightarrow> (string + unit) \<times> database" where
  "insertRows env tableName [] db = (Inr (), db)"
| "insertRows env tableName (rowObj # rest) db =
     andThen (insertRow env tableName (map fst rowObj) (map (rowValue \<circ> snd) rowObj) db)
       (\<lambda>_ db'. insertRows env tableName rest db')"

definition handleJob_try ::
  "env \<Rightarrow> job_data \<Rightarrow> database \<Rightarrow> (string + string) \<times> database" where
  "handleJob_try env job db =
     andThen (client_query env (query job @ '' LIMIT 0'') (params job) db) (\<lambda>metaResult db1.
     let tableName = resultTableName (jobId job) in
     andThen (createJobMetadata env db1) (\<lambda>_ db2.
     let columns = map (\<lambda>(name, dataTypeID). (name, mapPostgresType dataTypeID))
                     (query_result.fields metaResult) in
     andThen (createTable env tableName columns db2) (\<lambda>_ db3.
     andThen (insertJobMetadata env (jobId job) tableName db3) (\<lambda>_ db4.
     andThen (client_query env (query job) (params job) db4) (\<lambda>dataResult db5.
     andThen (insertRows env tableName (query_result.rows dataResult) db5) (\<lambda>_ db6.
     (Inr tableName, db6)))))))"

definition emit :: "env \<Rightarrow> string \<Rightarrow> payload \<Rightarrow> DBSentinel \<Rightarrow> string option \<times> DBSentinel" where
  "emit env eventName info s =
     (listenerFault env eventName, s\<lparr>emitted := emitted s @ [(eventName, info)]\<rparr>)"

definition handleJob_catch ::
  "env \<Rightarrow> job_data \<Rightarrow> error \<Rightarrow> DBSentinel \<Rightarrow> (error + string) \<times> DBSentinel" where
  "handleJob_catch env job err s =
     (case emit env (SENTINEL_JOB_FAILED (jobId job)) (FailureInfo err) s of
        (Some m, s') \<Rightarrow> (Inl (ExternalError m), s')
      | (None, s') \<Rightarrow> (Inl err, s'))"

definition handleJob ::
  "env \<Rightarrow> job_data \<Rightarrow> DBSentinel \<Rightarrow> (error + string) \<times> DBSentinel" where
  "handleJob env job s =
     (case connectFault env of
        Some m \<Rightarrow> (Inl (ExternalError m), s)
      | None \<Rightarrow>
          (case handleJob_try env job (dbPool s) of
             (Inr tableName, db') \<Rightarrow>
               (case emit env (SENTINEL_JOB_COMPLETED (jobId job))
                       (CompletedInfo (jobId job) tableName) (s\<lparr>dbPool := db'\<rparr>) of
                  (Some m, s') \<Rightarrow> handleJob_catch env job (ExternalError m) s'
                | (None, s') \<Rightarrow> (Inr tableName, s'))
           | (Inl m, db') \<Rightarrow> handleJob_catch env job (ExternalError m) (s\<lparr>dbPool := db'\<rparr>)))"

text \<open>
  The queue processor of lines 174-178, for one entry: the oldest waiting entry is
  picked up and handed to \<open>handleJob\<close>.
\<close>

definition processNext :: "env \<Rightarrow> DBSentinel \<Rightarrow> DBSentinel" where
  "processNext env s =
     (case queryQueue s of
        [] \<Rightarrow> s
      | job # rest \<Rightarrow> snd (handleJob env job (s\<lparr>queryQueue := rest\<rparr>)))"

text \<open>
  \<open>cleanupOldTables\<close>, lines 255-277. \<open>cleanupRow\<close> is the body of the loop for one
  row with its \<open>try\<close>/\<open>catch\<close>; it returns the database and the lines written to the
  console. \<open>cleanupOldTables\<close> returns normally or with the message of the call that was
  rejected outside the loop.
\<close>

definition cleanupRow ::
  "env \<Rightarrow> string \<times> string \<Rightarrow> database \<times> console_line list \<Rightarrow> database \<times> console_line list" where
  "cleanupRow env row acc =
     (case row of (row_job_id, row_table_name) \<Rightarrow>
      case acc of (db, out) \<Rightarrow>
        (case dropTableIfExists env row_table_name db of
           (Inl dropError, db1) \<Rightarrow> (db1, out @ [ErrorDroppingTable row_table_name dropError])
         | (Inr _, db1) \<Rightarrow>
             (case deleteJobMetadata env row_job_id db1 of
                (Inl dropError, db2) \<Rightarrow>
                  (db2, out @ [ErrorDroppingTable row_table_name dropError])
              | (Inr _, db2) \<Rightarrow> (db2, out))))"

definition cleanupOldTables :: "env \<Rightarrow> DBSentinel \<Rightarrow> (string + unit) \<times> DBSentinel" where
  "cleanupOldTables env s =
     (case connectFault env of
        Some m \<Rightarrow> (Inl m, s)
      | None \<Rightarrow>
          (case selectOldJobs env (tableTTLHours s) (dbPool s) of
             (Inl m, db') \<Rightarrow> (Inl m, s\<lparr>dbPool := db'\<rparr>)
           | (Inr result_rows, db') \<Rightarrow>
               (case fold (cleanupRow env) result_rows (db', []) of
                  (db'', out) \<Rightarrow> (Inr (), s\<lparr>dbPool := db'', console := console s @ out\<rparr>))))"

text \<open>
  \<open>setupCleanupTimer\<close>, lines 247-253: the timer is set, and \<open>cleanupTick\<close> is what runs
  each time it fires.
\<close>

definition setupCleanupTimer :: "DBSentinel \<Rightarrow> DBSentinel" where
  "setupCleanupTimer s = s\<lparr>cleanupTimer := Some (cleanupIntervalMs s)\<rparr>"

definition cleanupTick :: "env \<Rightarrow> DBSentinel \<Rightarrow> DBSentinel" where
  "cleanupTick env s =
     (case cleanupOldTables env s of
        (Inl m, s') \<Rightarrow> s'\<lparr>console := console s' @ [ErrorDuringCleanup m]\<rparr>
      | (Inr _, s') \<Rightarrow> s')"

subsection \<open>Notions used in the properties\<close>

text \<open>
  The rows of \<open>job_metadata\<close> (none while the table does not exist) and the names of the
  other tables. A job id is orphaned when a metadata row of that job names a table that
  does not exist.
\<close>

definition rowsOf :: "database \<Rightarrow> metadata_row list" where
  "rowsOf db = (case job_metadata db of None \<Rightarrow> [] | Some ms \<Rightarrow> ms)"

definition tableNames :: "database \<Rightarrow> string list" where
  "tableNames db = map fst (tables db)"

definition orphaned :: "database \<Rightarrow> string \<Rightarrow> bool" where
  "orphaned db jid =
     list_ex (\<lambda>r. job_id r = jid \<and> table_name r \<notin> set (tableNames db)) (rowsOf db)"

text \<open>
  A run from the database \<open>db\<close> to \<open>db'\<close> with result \<open>r\<close> stops at a fault when it
  only adds to the statements sent and, if the environment rejects one of the added
  statements, the result is that rejection.
\<close>

definition stopsAtFault :: "env \<Rightarrow> database \<Rightarrow> string + 'a \<Rightarrow> database \<Rightarrow> bool" where
  "stopsAtFault env db r db' =
     (\<exists>xs. executed db' = executed db @ xs \<and>
        (\<forall>i<length xs. \<forall>m.
           stmtFault env (length (executed db) + i) (xs ! i) = Some m \<longrightarrow> r = Inl m))"

text \<open>The metadata row that \<open>handleJob\<close> inserts for a job (lines 213-216).\<close>

definition newRow :: "env \<Rightarrow> job_data \<Rightarrow> metadata_row" where
  "newRow env job =
     \<lparr>job_id = jobId job, table_name = resultTableName (jobId job), created_at = clock env\<rparr>"


text \<open>
  The statements of one round of the cleanup loop for a selected row: the \<open>DROP\<close>, and
  the \<open>DELETE\<close> if the \<open>DROP\<close> went through.
\<close>

definition rowStatements :: "string \<times> string \<Rightarrow> bool \<Rightarrow> stmt list" where
  "rowStatements row dropped =
     (case row of (row_job_id, row_table_name) \<Rightarrow>
        if dropped then [DropTableIfExists row_table_name, DeleteJobMetadata row_job_id]
        else [DropTableIfExists row_table_name])"

subsection \<open>Concrete inputs\<close>

text \<open>
  An environment without failures, with the builtins as they are on ASCII text, in which
  every query of a caller returns no column and no row and no listener throws; a job as
  \<open>createQueryJob\<close> builds it; and an instance whose queue is full.
\<close>

definition quietEnv :: env where
  "quietEnv =
     \<lparr>jsTrim = asciiTrim, jsToUpperCase = asciiToUpperCase,
      nextUUID = ''123e4567-e89b-42d3-a456-426614174000'', waitingCountFault = None,
      addFault = None, connectFault = None, stmtFault = (\<lambda>n st. None),
      answer = (\<lambda>text ps. QueryResult [] []), clock = 0,
      listenerFault = (\<lambda>eventName. None)\<rparr>"

definition exampleJob :: job_data where
  "exampleJob =
     \<lparr>jobId = ''123e4567-e89b-42d3-a456-426614174000'', query = ''SELECT 1 AS x'',
      params = []\<rparr>"

definition fullSentinel :: DBSentinel where
  "fullSentinel = newDBSentinel\<lparr>queryQueue := [exampleJob], maxQueueSize := 1\<rparr>"

text \<open>
  An environment in which the query of \<open>exampleJob\<close> returns one row with one integer
  column; one in which that query fails when it is run for its rows, after the probe
  went through; one in which the pool cannot connect; and one in which a listener of the
  completion event of \<open>exampleJob\<close> throws. \<open>completedSentinel\<close> is the instance after
  \<open>exampleJob\<close> has completed.
\<close>

definition answeringEnv :: env where
  "answeringEnv =
     quietEnv\<lparr>answer := (\<lambda>text ps.
        if text = ''SELECT 1 AS x'' then QueryResult [(''x'', 23)] [[(''x'', JSValue ''1'')]]
        else QueryResult [(''x'', 23)] [])\<rparr>"

definition dataFailsEnv :: env where
  "dataFailsEnv =
     answeringEnv\<lparr>stmtFault := (\<lambda>n st.
        if st = Query ''SELECT 1 AS x'' [] then Some ''division by zero'' else None)\<rparr>"

definition listenerThrowsEnv :: env where
  "listenerThrowsEnv =
     answeringEnv\<lparr>listenerFault := (\<lambda>eventName.
        if eventName = SENTINEL_JOB_COMPLETED (jobId exampleJob) then Some ''listener failed''
        else None)\<rparr>"

definition refusedEnv :: env where
  "refusedEnv = quietEnv\<lparr>connectFault := Some ''connect ECONNREFUSED''\<rparr>"


text \<open>
  A database for the cleanup sweep, with a TTL of 24 hours and the clock at 24 hours and
  one microsecond: the rows of the jobs \<open>a\<close>, \<open>b\<close> and \<open>d\<close> are older than the TTL, the
  row of \<open>c\<close> is exactly 24 hours old; the table of \<open>d\<close> is already gone, and the
  \<open>DROP\<close> of the table of \<open>a\<close> fails. \<open>sweptSentinel\<close> is the instance after the
  sweep.
\<close>

definition uuidOf :: "char \<Rightarrow> string" where
  "uuidOf c = ''00000000-0000-4000-8000-00000000000'' @ [c]"

definition sweepRows :: "metadata_row list" where
  "sweepRows =
     map (\<lambda>(c, t). \<lparr>job_id = uuidOf c, table_name = resultTableName (uuidOf c), created_at = t\<rparr>)
       [(CHR ''a'', 0), (CHR ''b'', 0), (CHR ''c'', 1), (CHR ''d'', 0)]"

definition sweepSentinel :: DBSentinel where
  "sweepSentinel =
     setupCleanupTimer
       (newDBSentinel
          \<lparr>dbPool :=
             \<lparr>job_metadata = Some sweepRows,
              tables = map (\<lambda>c. (resultTableName (uuidOf c), [(''x'', ''INTEGER'')], []))
                         [CHR ''a'', CHR ''b'', CHR ''c''],
              executed = []\<rparr>\<rparr>)"

definition sweepEnv :: env where
  "sweepEnv =
     quietEnv\<lparr>clock := 86400000001,
       stmtFault := (\<lambda>n st.
         if st = DropTableIfExists (resultTableName (uuidOf (CHR ''a''))) then Some ''lock timeout''
         else None)\<rparr>"

definition sweptSentinel :: DBSentinel where
  "sweptSentinel = snd (cleanupOldTables sweepEnv sweepSentinel)"

section \<open>Properties\<close>

subsection \<open>The type mapper\<close>

text \<open>
  C6, amended. \<open>mapPostgresType\<close> is a total function of the type id: the ids 20, 21 and
  23 (the integer types) give \<open>INTEGER\<close>, 700 and 701 (the floating-point types) give
  \<open>DOUBLE PRECISION\<close>, 1700 gives \<open>NUMERIC\<close>, 16 gives \<open>BOOLEAN\<close>, 1082 gives \<open>DATE\<close>,
  1114 and 1184 (timestamps without and with time zone) give \<open>TIMESTAMP\<close>, 114 and 3802
  (JSON and JSONB) give \<open>JSONB\<close>, and every other id, the string types 25 and 1043
  among them, gives \<open>TEXT\<close>.
\<close>

theorem mapPostgresType_classes:
  "(t \<in> {20, 21, 23} \<longrightarrow> mapPostgresType t = ''INTEGER'') \<and>
   (t \<in> {700, 701} \<longrightarrow> mapPostgresType t = ''DOUBLE PRECISION'') \<and>
   (t = 1700 \<longrightarrow> mapPostgresType t = ''NUMERIC'') \<and>
   (t = 16 \<longrightarrow> mapPostgresType t = ''BOOLEAN'') \<and>
   (t = 1082 \<longrightarrow> mapPostgresType t = ''DATE'') \<and>
   (t \<in> {1114, 1184} \<longrightarrow> mapPostgresType t = ''TIMESTAMP'') \<and>
   (t \<in> {114, 3802} \<longrightarrow> mapPostgresType t = ''JSONB'') \<and>
   (t \<notin> {20, 21, 23, 700, 701, 1700, 16, 1082, 1114, 1184, 114, 3802} \<longrightarrow>
      mapPostgresType t = ''TEXT'')"
  by (simp add: mapPostgresType_def)

theorem mapPostgresType_classes_witness:
  "mapPostgresType 20 = ''INTEGER'' \<and> mapPostgresType 701 = ''DOUBLE PRECISION'' \<and>
   mapPostgresType 1700 = ''NUMERIC'' \<and> mapPostgresType 16 = ''BOOLEAN'' \<and>
   mapPostgresType 1082 = ''DATE'' \<and> mapPostgresType 1184 = ''TIMESTAMP'' \<and>
   mapPostgresType 3802 = ''JSONB'' \<and> mapPostgresType 25 = ''TEXT'' \<and>
   mapPostgresType 1043 = ''TEXT''"
  using mapPostgresType_classes [of 20] mapPostgresType_classes [of 701]
    mapPostgresType_classes [of 1700] mapPostgresType_classes [of 16]
    mapPostgresType_classes [of 1082] mapPostgresType_classes [of 1184]
    mapPostgresType_classes [of 3802] mapPostgresType_classes [of 25]
    mapPostgresType_classes [of 1043]
  by simp

text \<open>
  C6 as stated names the storage type of the floating-point ids \<open>DOUBLE\<close>; the string
  the code returns for the id 701 is \<open>DOUBLE PRECISION\<close>.
\<close>

theorem mapPostgresType_double_counterexample:
  "mapPostgresType 701 = ''DOUBLE PRECISION'' \<and> mapPostgresType 701 \<noteq> ''DOUBLE''"
  by (simp add: mapPostgresType_def)

subsection \<open>Submission\<close>

text \<open>
  C3. When the count of waiting entries is at or above \<open>maxQueueSize\<close>,
  \<open>createQueryJob\<close> fails with the queue-full error and returns the instance unchanged
  (nothing is enqueued, the depth of the queue is the same), whatever the query is: the
  check comes before the validation.
\<close>

theorem createQueryJob_queue_full:
  assumes "getWaitingCount env s = Inr n" and "int n \<ge> maxQueueSize s"
  shows "createQueryJob env q ps s = (Inl (MaxQueueSizeReached (maxQueueSize s)), s)"
  using assms by (simp add: createQueryJob_def)

theorem createQueryJob_queue_full_witness:
  "getWaitingCount quietEnv fullSentinel = Inr 1 \<and> int 1 \<ge> maxQueueSize fullSentinel \<and>
   validateSelectQuery quietEnv ''DROP TABLE x;'' = Inl OnlySelectAllowed \<and>
   createQueryJob quietEnv ''DROP TABLE x;'' [] fullSentinel =
     (Inl (MaxQueueSizeReached 1), fullSentinel)"
proof -
  have c: "getWaitingCount quietEnv fullSentinel = Inr 1"
    by (simp add: getWaitingCount_def quietEnv_def fullSentinel_def newDBSentinel_def)
  have m: "maxQueueSize fullSentinel = 1"
    by (simp add: fullSentinel_def newDBSentinel_def)
  have v: "validateSelectQuery quietEnv ''DROP TABLE x;'' = Inl OnlySelectAllowed"
    by (simp add: validateSelectQuery_def quietEnv_def startsWith_def asciiToUpperCase_def
          asciiTrim_def isWhiteSpace_def toUpperChar_def)
  from createQueryJob_queue_full [OF c, of "''DROP TABLE x;''" "[]"] c m v
  show ?thesis by simp
qed

text \<open>
  On ASCII text, trimming and upper-casing keep a semicolon: the builtins of
  \<open>quietEnv\<close> have the property that the amended C1 asks of the runtime.
\<close>

lemma toUpperChar_semicolon: "toUpperChar c = CHR '';'' \<longleftrightarrow> c = CHR '';''"
proof (cases "97 \<le> (of_char c :: nat) \<and> (of_char c :: nat) \<le> 122")
  case True
  then have up: "toUpperChar c = char_of ((of_char c :: nat) - 32)"
    by (simp add: toUpperChar_def)
  have "(of_char (toUpperChar c) :: nat) = ((of_char c :: nat) - 32) mod 256"
    unfolding up by (simp only: of_char_of)
  moreover from True have "((of_char c :: nat) - 32) mod 256 = (of_char c :: nat) - 32"
    by (intro mod_less) arith
  ultimately have "(of_char (toUpperChar c) :: nat) = (of_char c :: nat) - 32"
    by simp
  with True have "(of_char (toUpperChar c) :: nat) \<noteq> 59" by arith
  then have "toUpperChar c \<noteq> CHR '';''" by auto
  moreover from True have "c \<noteq> CHR '';''" by auto
  ultimately show ?thesis by simp
next
  case False
  then show ?thesis by (auto simp add: toUpperChar_def Let_def)
qed

lemma set_dropWhile_keep: "\<not> P x \<Longrightarrow> x \<in> set (dropWhile P xs) \<longleftrightarrow> x \<in> set xs"
  by (induction xs) auto

lemma quietEnv_keeps_semicolon:
  assumes "CHR '';'' \<in> set t"
  shows "CHR '';'' \<in> set (jsToUpperCase quietEnv (jsTrim quietEnv t))"
proof -
  have "\<not> isWhiteSpace (CHR '';'')" by (simp add: isWhiteSpace_def)
  with assms have "CHR '';'' \<in> set (asciiTrim t)"
    by (simp add: asciiTrim_def set_dropWhile_keep)
  moreover have "toUpperChar (CHR '';'') = CHR '';''" by (simp add: toUpperChar_semicolon)
  ultimately have "CHR '';'' \<in> set (asciiToUpperCase (asciiTrim t))"
    by (force simp add: asciiToUpperCase_def)
  then show ?thesis by (simp add: quietEnv_def)
qed

text \<open>
  C1, amended. With builtins that keep a semicolon (as \<open>trim\<close>, which removes white
  space only, and \<open>toUpperCase\<close>, which neither adds nor removes a semicolon, do), a
  query that contains a semicolon is always rejected and the instance is returned
  unchanged. When the waiting count is read and is below \<open>maxQueueSize\<close>, the error is
  the multi-statement one if the trimmed, upper-cased query begins with \<open>SELECT \<close>, and
  the not-a-SELECT one otherwise.
\<close>

theorem createQueryJob_semicolon:
  assumes "CHR '';'' \<in> set q"
    and "\<And>t. CHR '';'' \<in> set t \<Longrightarrow> CHR '';'' \<in> set (jsToUpperCase env (jsTrim env t))"
  shows "\<exists>e. createQueryJob env q ps s = (Inl e, s) \<and>
     (waitingCountFault env = None \<and> int (length (queryQueue s)) < maxQueueSize s \<longrightarrow>
        e = (if startsWith (jsToUpperCase env (jsTrim env q)) ''SELECT ''
             then SemicolonsNotPermitted else OnlySelectAllowed))"
proof -
  from assms have "includes_str (jsToUpperCase env (jsTrim env q)) (CHR '';'')"
    by (simp add: includes_str_def)
  then have v: "validateSelectQuery env q =
      Inl (if startsWith (jsToUpperCase env (jsTrim env q)) ''SELECT ''
           then SemicolonsNotPermitted else OnlySelectAllowed)"
    by (simp add: validateSelectQuery_def Let_def)
  show ?thesis
    by (simp add: createQueryJob_def getWaitingCount_def v split: option.splits)
qed

theorem createQueryJob_semicolon_witness:
  "CHR '';'' \<in> set ''SELECT 1; DROP TABLE x'' \<and>
   createQueryJob quietEnv ''SELECT 1; DROP TABLE x'' [] newDBSentinel =
     (Inl SemicolonsNotPermitted, newDBSentinel)"
proof -
  have h: "CHR '';'' \<in> set ''SELECT 1; DROP TABLE x''" by simp
  have a: "waitingCountFault quietEnv = None \<and>
           int (length (queryQueue newDBSentinel)) < maxQueueSize newDBSentinel"
    by (simp add: quietEnv_def newDBSentinel_def)
  have p: "startsWith (jsToUpperCase quietEnv (jsTrim quietEnv ''SELECT 1; DROP TABLE x''))
             ''SELECT ''"
    by (simp add: quietEnv_def startsWith_def asciiToUpperCase_def asciiTrim_def
          isWhiteSpace_def toUpperChar_def)
  from createQueryJob_semicolon [OF h quietEnv_keeps_semicolon, of "[]" newDBSentinel] a p h
  show ?thesis by auto
qed

text \<open>
  C1 as stated fails for a query with a semicolon that does not begin with
  \<open>SELECT \<close>: the error is the not-a-SELECT one.
\<close>

theorem createQueryJob_semicolon_counterexample:
  "CHR '';'' \<in> set ''DROP TABLE x;'' \<and>
   fst (createQueryJob quietEnv ''DROP TABLE x;'' [] newDBSentinel) = Inl OnlySelectAllowed \<and>
   fst (createQueryJob quietEnv ''DROP TABLE x;'' [] newDBSentinel) \<noteq>
     Inl SemicolonsNotPermitted"
  by (simp add: createQueryJob_def getWaitingCount_def quietEnv_def newDBSentinel_def
        validateSelectQuery_def startsWith_def asciiToUpperCase_def asciiTrim_def
        isWhiteSpace_def toUpperChar_def)

text \<open>
  C4, amended. A query that, trimmed and upper-cased by the builtins of the runtime,
  does not begin with \<open>SELECT \<close> is always rejected and the instance is returned
  unchanged; the error is the not-a-SELECT one whenever the waiting count is read and is
  below \<open>maxQueueSize\<close>.
\<close>

theorem createQueryJob_not_select:
  assumes "\<not> startsWith (jsToUpperCase env (jsTrim env q)) ''SELECT ''"
  shows "\<exists>e. createQueryJob env q ps s = (Inl e, s) \<and>
     (waitingCountFault env = None \<and> int (length (queryQueue s)) < maxQueueSize s \<longrightarrow>
        e = OnlySelectAllowed)"
proof -
  have v: "validateSelectQuery env q = Inl OnlySelectAllowed"
    using assms by (simp add: validateSelectQuery_def Let_def)
  show ?thesis
    by (simp add: createQueryJob_def getWaitingCount_def v split: option.splits)
qed

theorem createQueryJob_not_select_witness:
  "\<not> startsWith (jsToUpperCase quietEnv (jsTrim quietEnv ''  drop table x'')) ''SELECT '' \<and>
   createQueryJob quietEnv ''  drop table x'' [] newDBSentinel =
     (Inl OnlySelectAllowed, newDBSentinel)"
proof -
  have h: "\<not> startsWith (jsToUpperCase quietEnv (jsTrim quietEnv ''  drop table x''))
               ''SELECT ''"
    by (simp add: quietEnv_def startsWith_def asciiToUpperCase_def asciiTrim_def
          isWhiteSpace_def toUpperChar_def)
  have a: "waitingCountFault quietEnv = None \<and>
           int (length (queryQueue newDBSentinel)) < maxQueueSize newDBSentinel"
    by (simp add: quietEnv_def newDBSentinel_def)
  from createQueryJob_not_select [OF h, of "[]" newDBSentinel] a h
  show ?thesis by auto
qed

text \<open>
  C4 as stated fails when the queue is full: the error is the queue-full one, also for
  a query that is not a SELECT.
\<close>

theorem createQueryJob_not_select_counterexample:
  "\<not> startsWith (jsToUpperCase quietEnv (jsTrim quietEnv ''DROP TABLE x'')) ''SELECT '' \<and>
   fst (createQueryJob quietEnv ''DROP TABLE x'' [] fullSentinel) =
     Inl (MaxQueueSizeReached 1) \<and>
   fst (createQueryJob quietEnv ''DROP TABLE x'' [] fullSentinel) \<noteq> Inl OnlySelectAllowed"
  by (simp add: createQueryJob_def getWaitingCount_def quietEnv_def fullSentinel_def
        newDBSentinel_def startsWith_def asciiToUpperCase_def asciiTrim_def isWhiteSpace_def
        toUpperChar_def)

subsection \<open>The name of the result table\<close>

lemma hexdigit_isWordChar: "hexdigit c \<Longrightarrow> isWordChar c \<and> c \<noteq> CHR ''_'' \<and> c \<noteq> CHR ''-''"
  by (auto simp add: hexdigit_def isWordChar_def)

lemma isUUID_length: "isUUID s \<Longrightarrow> length s = 36"
  by (auto simp add: isUUID_def dest: list_all2_lengthD)

lemma isUUID_chars:
  assumes "isUUID s" and "c \<in> set s"
  shows "c = CHR ''-'' \<or> hexdigit c"
proof -
  from assms(2) obtain i where i: "i < length s" and c: "s ! i = c"
    by (auto simp add: in_set_conv_nth)
  from assms(1) i have
    "(if ''xxxxxxxx-xxxx-xxxx-xxxx-xxxxxxxxxxxx'' ! i = CHR ''-'' then s ! i = CHR ''-''
      else hexdigit (s ! i))"
    unfolding isUUID_def by (rule list_all2_nthD2)
  with c show ?thesis by (auto split: if_splits)
qed

lemma replaceHyphens_inject:
  assumes "CHR ''_'' \<notin> set a" and "CHR ''_'' \<notin> set b"
    and "replaceHyphens a = replaceHyphens b"
  shows "a = b"
proof -
  from assms(3) have "length a = length b"
    unfolding replaceHyphens_def by (rule map_eq_imp_length_eq)
  then show ?thesis using assms
    by (induction a b rule: list_induct2) (auto simp add: replaceHyphens_def split: if_splits)
qed

lemma replaceHyphens_uuid_spec:
  assumes "isUUID a"
  shows "replaceHyphens a = map (\<lambda>c. if isWordChar c then c else CHR ''_'') a"
  unfolding replaceHyphens_def
proof (rule map_cong [OF refl])
  fix c assume "c \<in> set a"
  with assms have "c = CHR ''-'' \<or> hexdigit c" by (rule isUUID_chars)
  then show "(if c = CHR ''-'' then CHR ''_'' else c) = (if isWordChar c then c else CHR ''_'')"
    by (auto simp add: isWordChar_def dest: hexdigit_isWordChar)
qed

lemma validIdentifier_uuid:
  assumes "isUUID a"
  shows "validIdentifier (resultTableName a)"
proof -
  have "isWordChar (CHR ''_'')" by (simp add: isWordChar_def)
  then have "list_all isWordChar (replaceHyphens a)"
    unfolding replaceHyphens_uuid_spec [OF assms]
    by (auto simp add: list_all_iff)
  moreover have "length (replaceHyphens a) = 36"
    using isUUID_length [OF assms] by (simp add: replaceHyphens_def)
  ultimately show ?thesis
    by (simp add: validIdentifier_def resultTableName_def isWordChar_def)
qed


text \<open>
  C5. The table name is a function of the job id: the prefix \<open>query_results_\<close> and the
  id with its hyphens replaced by underscores, which for an id in the format of
  \<open>crypto.randomUUID()\<close> is the id with every non-identifier character replaced. Two
  different such ids have different table names, and each name is a valid identifier.
\<close>

theorem resultTableName_distinct_valid:
  assumes "isUUID a" and "isUUID b" and "a \<noteq> b"
  shows "resultTableName a \<noteq> resultTableName b \<and>
         validIdentifier (resultTableName a) \<and> validIdentifier (resultTableName b) \<and>
         resultTableName a = specTableName a \<and> resultTableName b = specTableName b"
proof -
  have na: "CHR ''_'' \<notin> set a" using isUUID_chars [OF assms(1)] hexdigit_isWordChar by fastforce
  have nb: "CHR ''_'' \<notin> set b" using isUUID_chars [OF assms(2)] hexdigit_isWordChar by fastforce
  from na nb assms(3) have "replaceHyphens a \<noteq> replaceHyphens b"
    by (auto dest: replaceHyphens_inject)
  then have "resultTableName a \<noteq> resultTableName b"
    by (simp add: resultTableName_def)
  moreover have "resultTableName a = specTableName a" "resultTableName b = specTableName b"
    by (simp_all add: resultTableName_def specTableName_def replaceHyphens_uuid_spec assms)
  ultimately show ?thesis
    using validIdentifier_uuid [OF assms(1)] validIdentifier_uuid [OF assms(2)] by simp
qed

theorem resultTableName_distinct_valid_witness:
  "isUUID ''123e4567-e89b-42d3-a456-426614174000'' \<and>
   isUUID ''123e4567-e89b-42d3-a456-426614174001'' \<and>
   ''123e4567-e89b-42d3-a456-426614174000'' \<noteq> ''123e4567-e89b-42d3-a456-426614174001'' \<and>
   resultTableName ''123e4567-e89b-42d3-a456-426614174000'' \<noteq>
     resultTableName ''123e4567-e89b-42d3-a456-426614174001'' \<and>
   validIdentifier (resultTableName ''123e4567-e89b-42d3-a456-426614174000'')"
proof -
  have a: "isUUID ''123e4567-e89b-42d3-a456-426614174000''"
    by (simp add: isUUID_def hexdigit_def)
  have b: "isUUID ''123e4567-e89b-42d3-a456-426614174001''"
    by (simp add: isUUID_def hexdigit_def)
  have d: "''123e4567-e89b-42d3-a456-426614174000'' \<noteq> ''123e4567-e89b-42d3-a456-426614174001''"
    by simp
  from resultTableName_distinct_valid [OF a b d] a b d show ?thesis by blast
qed

subsection \<open>The statements of the database, one by one\<close>

lemma rowsOf_eq: "job_metadata db' = job_metadata db \<Longrightarrow> rowsOf db' = rowsOf db"
  by (simp add: rowsOf_def)

lemma client_query_D:
  "client_query env t ps db = (r, db') \<Longrightarrow>
     executed db' = executed db @ [Query t ps] \<and> job_metadata db' = job_metadata db \<and>
     rowsOf db' = rowsOf db \<and> tableNames db' = tableNames db"
  by (auto simp add: client_query_def send_def rowsOf_def tableNames_def split: option.splits)

lemma createJobMetadata_D:
  "createJobMetadata env db = (r, db') \<Longrightarrow>
     executed db' = executed db @ [CreateJobMetadata] \<and> tableNames db' = tableNames db \<and>
     rowsOf db' = rowsOf db \<and> (r = Inr () \<longrightarrow> job_metadata db' = Some (rowsOf db))"
  by (auto simp add: createJobMetadata_def send_def rowsOf_def tableNames_def split: option.splits)

lemma createTable_D:
  "createTable env tn cols db = (r, db') \<Longrightarrow>
     executed db' = executed db @ [CreateTable tn cols] \<and> job_metadata db' = job_metadata db \<and>
     rowsOf db' = rowsOf db \<and>
     (case r of Inl _ \<Rightarrow> tableNames db' = tableNames db
      | Inr _ \<Rightarrow> tn \<notin> set (tableNames db) \<and> tableNames db' = tableNames db @ [tn])"
  by (auto simp add: createTable_def send_def tableNames_def rowsOf_def split: option.splits if_splits)

lemma insertJobMetadata_D:
  "insertJobMetadata env jid tn db = (r, db') \<Longrightarrow>
     executed db' = executed db @ [InsertJobMetadata jid tn] \<and> tableNames db' = tableNames db \<and>
     (case r of Inl _ \<Rightarrow> job_metadata db' = job_metadata db \<and> rowsOf db' = rowsOf db
      | Inr _ \<Rightarrow> jid \<notin> set (map job_id (rowsOf db)) \<and>
          rowsOf db' = rowsOf db @ [\<lparr>job_id = jid, table_name = tn, created_at = clock env\<rparr>] \<and>
          job_metadata db' = Some (rowsOf db'))"
  by (auto simp add: insertJobMetadata_def send_def rowsOf_def tableNames_def split: option.splits if_splits)

lemma insertRow_D:
  "insertRow env tn cs vs db = (r, db') \<Longrightarrow>
     executed db' = executed db @ [InsertRow tn cs vs] \<and> job_metadata db' = job_metadata db \<and>
     rowsOf db' = rowsOf db \<and> tableNames db' = tableNames db"
  by (auto simp add: insertRow_def send_def tableNames_def rowsOf_def split: option.splits if_splits)

lemma insertRows_D:
  "insertRows env tn rs db = (r, db') \<Longrightarrow>
     job_metadata db' = job_metadata db \<and> rowsOf db' = rowsOf db \<and>
     tableNames db' = tableNames db \<and>
     (\<exists>xs. executed db' = executed db @ xs \<and> (\<forall>t p. Query t p \<notin> set xs))"
proof (induction rs arbitrary: db)
  case Nil
  then show ?case by simp
next
  case (Cons rowObj rest)
  obtain r1 db1 where
    step: "insertRow env tn (map fst rowObj) (map (rowValue \<circ> snd) rowObj) db = (r1, db1)"
    by (cases "insertRow env tn (map fst rowObj) (map (rowValue \<circ> snd) rowObj) db")
  note s = insertRow_D [OF step]
  show ?case
  proof (cases r1)
    case (Inl m)
    with Cons.prems step s show ?thesis by (auto simp add: andThen_def)
  next
    case (Inr u)
    with Cons.prems step have "insertRows env tn rest db1 = (r, db')"
      by (simp add: andThen_def)
    from Cons.IH [OF this] s show ?thesis by auto
  qed
qed

lemma handleJob_try_executed:
  assumes "handleJob_try env job db = (r, db')"
  shows "\<exists>rest. executed db' = executed db @ Query (query job @ '' LIMIT 0'') (params job) # rest \<and>
           (\<forall>t p. Query t p \<in> set rest \<longrightarrow> t = query job \<and> p = params job)"
  using assms unfolding handleJob_try_def andThen_def Let_def
  by (auto split: prod.splits sum.splits
        dest!: client_query_D createJobMetadata_D createTable_D insertJobMetadata_D insertRows_D)

lemma handleJob_try_tables:
  assumes "handleJob_try env job db = (r, db')"
  shows "set (tableNames db) \<subseteq> set (tableNames db')"
  using assms unfolding handleJob_try_def andThen_def Let_def
  by (auto split: prod.splits sum.splits
        dest!: client_query_D createJobMetadata_D createTable_D insertJobMetadata_D insertRows_D)

lemma handleJob_try_rows:
  assumes "handleJob_try env job db = (r, db')"
  shows "rowsOf db' = rowsOf db \<or>
         (rowsOf db' = rowsOf db @ [newRow env job] \<and>
          jobId job \<notin> set (map job_id (rowsOf db)) \<and>
          resultTableName (jobId job) \<in> set (tableNames db'))"
  using assms unfolding handleJob_try_def andThen_def Let_def
  by (auto split: prod.splits sum.splits simp add: newRow_def
        dest!: client_query_D createJobMetadata_D createTable_D insertJobMetadata_D insertRows_D)


subsection \<open>A rejected statement ends the \<open>try\<close> block\<close>

lemma stopsAtFault_one:
  assumes "executed db' = executed db @ [st]"
    and "\<And>m. stmtFault env (length (executed db)) st = Some m \<Longrightarrow> r = Inl m"
  shows "stopsAtFault env db r db'"
  unfolding stopsAtFault_def
proof (intro exI conjI allI impI)
  show "executed db' = executed db @ [st]" by (rule assms(1))
next
  fix i m
  assume "i < length [st]"
    and "stmtFault env (length (executed db) + i) ([st] ! i) = Some m"
  then show "r = Inl m" using assms(2) by simp
qed

lemma stopsAtFault_return: "stopsAtFault env db (fst (Inr x, db)) (snd (Inr x, db))"
  by (simp add: stopsAtFault_def)

lemma stopsAtFault_andThen:
  assumes first: "stopsAtFault env db (fst m) (snd m)"
    and rest: "\<And>x db1. m = (Inr x, db1) \<Longrightarrow>
                 stopsAtFault env db1 (fst (f x db1)) (snd (f x db1))"
  shows "stopsAtFault env db (fst (andThen m f)) (snd (andThen m f))"
proof -
  obtain r1 db1 where m: "m = (r1, db1)" by (cases m)
  from first m obtain xs where xs: "executed db1 = executed db @ xs"
    and fx: "\<And>i e. i < length xs \<Longrightarrow>
               stmtFault env (length (executed db) + i) (xs ! i) = Some e \<Longrightarrow> r1 = Inl e"
    by (auto simp add: stopsAtFault_def)
  show ?thesis
  proof (cases r1)
    case (Inl e)
    with m have a: "andThen m f = (Inl e, db1)" by (simp add: andThen_def)
    show ?thesis unfolding a stopsAtFault_def
    proof (intro exI conjI allI impI)
      show "executed (snd (Inl e, db1)) = executed db @ xs" using xs by simp
    next
      fix i e'
      assume "i < length xs"
        and "stmtFault env (length (executed db) + i) (xs ! i) = Some e'"
      then have "r1 = Inl e'" by (rule fx)
      with Inl show "fst (Inl e, db1) = Inl e'" by simp
    qed
  next
    case (Inr x)
    with m have a: "andThen m f = f x db1" by (simp add: andThen_def)
    from rest [of x db1] m Inr obtain ys where
      ys: "executed (snd (f x db1)) = executed db1 @ ys"
      and fy: "\<And>i e. i < length ys \<Longrightarrow>
                 stmtFault env (length (executed db1) + i) (ys ! i) = Some e \<Longrightarrow>
                 fst (f x db1) = Inl e"
      by (auto simp add: stopsAtFault_def)
    show ?thesis unfolding a stopsAtFault_def
    proof (intro exI conjI allI impI)
      show "executed (snd (f x db1)) = executed db @ (xs @ ys)" using xs ys by simp
    next
      fix i e
      assume i: "i < length (xs @ ys)"
        and f: "stmtFault env (length (executed db) + i) ((xs @ ys) ! i) = Some e"
      show "fst (f x db1) = Inl e"
      proof (cases "i < length xs")
        case True
        with f have "stmtFault env (length (executed db) + i) (xs ! i) = Some e"
          by (simp add: nth_append)
        with True have "r1 = Inl e" by (rule fx)
        with Inr show ?thesis by simp
      next
        case False
        with i have k: "i - length xs < length ys" by simp
        from False have "(xs @ ys) ! i = ys ! (i - length xs)" by (simp add: nth_append)
        moreover from False xs
        have "length (executed db) + i = length (executed db1) + (i - length xs)" by simp
        ultimately
        have "stmtFault env (length (executed db1) + (i - length xs)) (ys ! (i - length xs)) =
            Some e"
          using f by simp
        with k show ?thesis by (rule fy)
      qed
    qed
  qed
qed

lemma client_query_stops:
  "stopsAtFault env db (fst (client_query env t ps db)) (snd (client_query env t ps db))"
  by (rule stopsAtFault_one [where st = "Query t ps"])
     (auto simp add: client_query_def send_def split: option.splits)

lemma createJobMetadata_stops:
  "stopsAtFault env db (fst (createJobMetadata env db)) (snd (createJobMetadata env db))"
  by (rule stopsAtFault_one [where st = CreateJobMetadata])
     (auto simp add: createJobMetadata_def send_def split: option.splits)

lemma createTable_stops:
  "stopsAtFault env db (fst (createTable env tn cols db)) (snd (createTable env tn cols db))"
  by (rule stopsAtFault_one [where st = "CreateTable tn cols"])
     (auto simp add: createTable_def send_def split: option.splits)

lemma insertJobMetadata_stops:
  "stopsAtFault env db (fst (insertJobMetadata env jid tn db))
     (snd (insertJobMetadata env jid tn db))"
  by (rule stopsAtFault_one [where st = "InsertJobMetadata jid tn"])
     (auto simp add: insertJobMetadata_def send_def split: option.splits)

lemma insertRow_stops:
  "stopsAtFault env db (fst (insertRow env tn cs vs db)) (snd (insertRow env tn cs vs db))"
  by (rule stopsAtFault_one [where st = "InsertRow tn cs vs"])
     (auto simp add: insertRow_def send_def split: option.splits)

lemma insertRows_stops:
  "stopsAtFault env db (fst (insertRows env tn rs db)) (snd (insertRows env tn rs db))"
proof (induction rs arbitrary: db)
  case Nil
  show ?case by (simp add: stopsAtFault_def)
next
  case (Cons rowObj rest)
  show ?case
    unfolding insertRows.simps
    by (rule stopsAtFault_andThen) (rule insertRow_stops, rule Cons.IH)
qed

lemma handleJob_try_stops:
  "stopsAtFault env db (fst (handleJob_try env job db)) (snd (handleJob_try env job db))"
  unfolding handleJob_try_def Let_def
  by (intro stopsAtFault_andThen client_query_stops createJobMetadata_stops createTable_stops
        insertJobMetadata_stops insertRows_stops stopsAtFault_return)

text \<open>
  If the environment rejects the statement at position \<open>n\<close> of the statements sent, and
  that statement was sent by this run of the \<open>try\<close> block, the block fails with that
  rejection.
\<close>

lemma handleJob_try_rejected:
  assumes run: "handleJob_try env job db = (r, db')"
    and n: "length (executed db) \<le> n" "n < length (executed db')"
    and f: "stmtFault env n (executed db' ! n) = Some m"
  shows "r = Inl m"
proof -
  from handleJob_try_stops [of env db job] run obtain xs where
    xs: "executed db' = executed db @ xs"
    and fx: "\<And>i e. i < length xs \<Longrightarrow>
               stmtFault env (length (executed db) + i) (xs ! i) = Some e \<Longrightarrow> r = Inl e"
    by (auto simp add: stopsAtFault_def)
  from n xs have i: "n - length (executed db) < length xs" by simp
  from n xs have "executed db' ! n = xs ! (n - length (executed db))"
    by (simp add: nth_append)
  with f n have "stmtFault env (length (executed db) + (n - length (executed db)))
      (xs ! (n - length (executed db))) = Some m" by simp
  with i show ?thesis by (rule fx)
qed

subsection \<open>Running a job\<close>

lemma handleJob_catch_D:
  assumes "handleJob_catch env job err s = (r, s')"
  shows "s' = s\<lparr>emitted := emitted s @ [(SENTINEL_JOB_FAILED (jobId job), FailureInfo err)]\<rparr>"
    and "\<exists>e. r = Inl e"
    and "listenerFault env (SENTINEL_JOB_FAILED (jobId job)) = None \<longrightarrow> r = Inl err"
  using assms by (auto simp add: handleJob_catch_def emit_def split: option.splits)

lemma handleJob_unfold:
  assumes "connectFault env = None" and "handleJob_try env job (dbPool s) = (t, db')"
  shows "handleJob env job s =
     (case t of
        Inl m \<Rightarrow> handleJob_catch env job (ExternalError m) (s\<lparr>dbPool := db'\<rparr>)
      | Inr tn \<Rightarrow>
          (case listenerFault env (SENTINEL_JOB_COMPLETED (jobId job)) of
             None \<Rightarrow>
               (Inr tn,
                s\<lparr>dbPool := db',
                  emitted := emitted s @
                    [(SENTINEL_JOB_COMPLETED (jobId job), CompletedInfo (jobId job) tn)]\<rparr>)
           | Some m \<Rightarrow>
               handleJob_catch env job (ExternalError m)
                 (s\<lparr>dbPool := db',
                    emitted := emitted s @
                      [(SENTINEL_JOB_COMPLETED (jobId job), CompletedInfo (jobId job) tn)]\<rparr>)))"
  using assms by (simp add: handleJob_def emit_def split: sum.splits option.splits)

lemma handleJob_dbPool:
  assumes "connectFault env = None" and "handleJob_try env job (dbPool s) = (t, db')"
  shows "dbPool (snd (handleJob env job s)) = db'"
proof -
  have c: "dbPool (snd (handleJob_catch env job err s0)) = dbPool s0" for err s0
    using handleJob_catch_D(1) [of env job err s0] by (cases "handleJob_catch env job err s0") simp
  show ?thesis
    unfolding handleJob_unfold [OF assms]
    by (simp add: c split: sum.splits option.splits)
qed

text \<open>
  C10. Once the worker has its connection, the first statement \<open>handleJob\<close> sends is
  the submitted query text with \<open> LIMIT 0\<close> appended, with the parameters of the job;
  every later statement with text of the caller is the submitted query itself with the
  same parameters.
\<close>

theorem handleJob_probe_statement:
  assumes "connectFault env = None"
  shows "\<exists>rest. executed (dbPool (snd (handleJob env job s))) =
            executed (dbPool s) @ Query (query job @ '' LIMIT 0'') (params job) # rest \<and>
          (\<forall>t p. Query t p \<in> set rest \<longrightarrow> t = query job \<and> p = params job)"
proof -
  obtain r db' where t: "handleJob_try env job (dbPool s) = (r, db')"
    by (cases "handleJob_try env job (dbPool s)")
  from handleJob_dbPool [OF assms t] have "dbPool (snd (handleJob env job s)) = db'" .
  with handleJob_try_executed [OF t] show ?thesis by simp
qed

theorem handleJob_probe_statement_witness:
  "connectFault answeringEnv = None \<and>
   hd (executed (dbPool (snd (handleJob answeringEnv exampleJob newDBSentinel)))) =
     Query ''SELECT 1 AS x LIMIT 0'' []"
proof -
  have h: "connectFault answeringEnv = None"
    by (simp add: answeringEnv_def quietEnv_def)
  from handleJob_probe_statement [OF h, of exampleJob newDBSentinel] obtain rest where
    "executed (dbPool (snd (handleJob answeringEnv exampleJob newDBSentinel))) =
       executed (dbPool newDBSentinel) @
         Query (query exampleJob @ '' LIMIT 0'') (params exampleJob) # rest"
    by blast
  then have "hd (executed (dbPool (snd (handleJob answeringEnv exampleJob newDBSentinel)))) =
      Query ''SELECT 1 AS x LIMIT 0'' []"
    by (simp add: newDBSentinel_def exampleJob_def)
  with h show ?thesis by simp
qed

text \<open>
  C2. When \<open>handleJob\<close> has its connection and the environment rejects one of the
  statements the run sends (the probe, a \<open>CREATE TABLE\<close>, the metadata \<open>INSERT\<close>, the
  query, or the \<open>INSERT\<close> of a row), the run raises the failure event of the job with
  that rejection and no other event (no completion event), and it fails, with that
  rejection unless a listener of the failure event throws. If the job id was not
  orphaned before, it is not orphaned afterwards: a metadata row of the job names a
  table that exists.
\<close>

theorem handleJob_failure:
  assumes "connectFault env = None"
    and "handleJob env job s = (r, s')"
    and "length (executed (dbPool s)) \<le> n" and "n < length (executed (dbPool s'))"
    and "stmtFault env n (executed (dbPool s') ! n) = Some m"
    and "\<not> orphaned (dbPool s) (jobId job)"
  shows "emitted s' =
           emitted s @ [(SENTINEL_JOB_FAILED (jobId job), FailureInfo (ExternalError m))] \<and>
         (\<exists>e. r = Inl e) \<and>
         (listenerFault env (SENTINEL_JOB_FAILED (jobId job)) = None \<longrightarrow>
            r = Inl (ExternalError m)) \<and>
         \<not> orphaned (dbPool s') (jobId job)"
proof -
  obtain t db' where t: "handleJob_try env job (dbPool s) = (t, db')"
    by (cases "handleJob_try env job (dbPool s)")
  from handleJob_dbPool [OF assms(1) t] assms(2) have db: "dbPool s' = db'" by simp
  from handleJob_try_rejected [OF t assms(3)] assms(4,5) db have tm: "t = Inl m" by simp
  from handleJob_unfold [OF assms(1) t] tm assms(2)
  have c: "handleJob_catch env job (ExternalError m) (s\<lparr>dbPool := db'\<rparr>) = (r, s')" by simp
  note k = handleJob_catch_D [OF c]
  have "\<not> orphaned db' (jobId job)"
  proof
    assume "orphaned db' (jobId job)"
    then obtain x where x: "x \<in> set (rowsOf db')" "job_id x = jobId job"
        "table_name x \<notin> set (tableNames db')"
      by (auto simp add: orphaned_def list_ex_iff)
    from handleJob_try_rows [OF t] show False
    proof
      assume "rowsOf db' = rowsOf (dbPool s)"
      with x handleJob_try_tables [OF t] assms(6) show False
        by (auto simp add: orphaned_def list_ex_iff)
    next
      assume a: "rowsOf db' = rowsOf (dbPool s) @ [newRow env job] \<and>
          jobId job \<notin> set (map job_id (rowsOf (dbPool s))) \<and>
          resultTableName (jobId job) \<in> set (tableNames db')"
      from a x(1) have "x \<in> set (rowsOf (dbPool s)) \<or> x = newRow env job" by auto
      moreover from a x(2) have "x \<notin> set (rowsOf (dbPool s))" by force
      ultimately have "x = newRow env job" by simp
      with a x show False by (simp add: newRow_def)
    qed
  qed
  with k db show ?thesis by simp
qed

theorem handleJob_failure_witness:
  "connectFault dataFailsEnv = None \<and>
   length (executed (dbPool newDBSentinel)) \<le> 4 \<and>
   4 < length (executed (dbPool (snd (handleJob dataFailsEnv exampleJob newDBSentinel)))) \<and>
   executed (dbPool (snd (handleJob dataFailsEnv exampleJob newDBSentinel))) ! 4 =
     Query ''SELECT 1 AS x'' [] \<and>
   stmtFault dataFailsEnv 4 (Query ''SELECT 1 AS x'' []) = Some ''division by zero'' \<and>
   \<not> orphaned (dbPool newDBSentinel) (jobId exampleJob) \<and>
   fst (handleJob dataFailsEnv exampleJob newDBSentinel) =
     Inl (ExternalError ''division by zero'') \<and>
   emitted (snd (handleJob dataFailsEnv exampleJob newDBSentinel)) =
     [(''job-failed:123e4567-e89b-42d3-a456-426614174000'',
       FailureInfo (ExternalError ''division by zero''))] \<and>
   \<not> orphaned (dbPool (snd (handleJob dataFailsEnv exampleJob newDBSentinel)))
       (jobId exampleJob)"
proof -
  have h1: "connectFault dataFailsEnv = None"
    by (simp add: dataFailsEnv_def answeringEnv_def quietEnv_def)
  have h2: "handleJob dataFailsEnv exampleJob newDBSentinel =
      (fst (handleJob dataFailsEnv exampleJob newDBSentinel),
       snd (handleJob dataFailsEnv exampleJob newDBSentinel))" by simp
  have h3: "length (executed (dbPool newDBSentinel)) \<le> 4" by (simp add: newDBSentinel_def)
  have tr: "executed (dbPool (snd (handleJob dataFailsEnv exampleJob newDBSentinel))) =
      [Query ''SELECT 1 AS x LIMIT 0'' [], CreateJobMetadata,
       CreateTable ''query_results_123e4567_e89b_42d3_a456_426614174000'' [(''x'', ''INTEGER'')],
       InsertJobMetadata ''123e4567-e89b-42d3-a456-426614174000''
         ''query_results_123e4567_e89b_42d3_a456_426614174000'',
       Query ''SELECT 1 AS x'' []]" by code_simp
  have h4: "4 < length (executed (dbPool (snd (handleJob dataFailsEnv exampleJob newDBSentinel))))"
    unfolding tr by simp
  have at: "executed (dbPool (snd (handleJob dataFailsEnv exampleJob newDBSentinel))) ! 4 =
      Query ''SELECT 1 AS x'' []"
    unfolding tr by simp
  have fl: "stmtFault dataFailsEnv 4 (Query ''SELECT 1 AS x'' []) = Some ''division by zero''"
    by (simp add: dataFailsEnv_def)
  have h5: "stmtFault dataFailsEnv 4
      (executed (dbPool (snd (handleJob dataFailsEnv exampleJob newDBSentinel))) ! 4) =
      Some ''division by zero''"
    unfolding at by (rule fl)
  have h6: "\<not> orphaned (dbPool newDBSentinel) (jobId exampleJob)"
    by (simp add: orphaned_def rowsOf_def newDBSentinel_def)
  have q: "listenerFault dataFailsEnv (SENTINEL_JOB_FAILED (jobId exampleJob)) = None"
    by (simp add: dataFailsEnv_def answeringEnv_def quietEnv_def)
  have n: "SENTINEL_JOB_FAILED (jobId exampleJob) =
      ''job-failed:123e4567-e89b-42d3-a456-426614174000''"
    by (simp add: SENTINEL_JOB_FAILED_def exampleJob_def)
  have e: "emitted newDBSentinel = []" by (simp add: newDBSentinel_def)
  from handleJob_failure [OF h1 h2 h3 h4 h5 h6] h1 h3 h4 at fl h6 q show ?thesis
    by (simp add: n e)
qed

text \<open>
  With a connection, and no listener of the completion event that throws, each run of
  \<open>handleJob\<close> raises one event. A throwing listener of the completion event makes the
  same run raise the failure event as well.
\<close>

lemma handleJob_one_event:
  assumes "connectFault env = None"
    and "listenerFault env (SENTINEL_JOB_COMPLETED (jobId job)) = None"
  shows "\<exists>ev. emitted (snd (handleJob env job s)) = emitted s @ [ev]"
proof -
  obtain t db' where t: "handleJob_try env job (dbPool s) = (t, db')"
    by (cases "handleJob_try env job (dbPool s)")
  show ?thesis
    unfolding handleJob_unfold [OF assms(1) t]
    using assms(2)
    by (auto simp add: handleJob_catch_def emit_def split: sum.splits option.splits)
qed

lemma handleJob_listener_throws:
  "fst (handleJob listenerThrowsEnv exampleJob newDBSentinel) =
     Inl (ExternalError ''listener failed'') \<and>
   emitted (snd (handleJob listenerThrowsEnv exampleJob newDBSentinel)) =
     [(''job-completed:123e4567-e89b-42d3-a456-426614174000'',
       CompletedInfo ''123e4567-e89b-42d3-a456-426614174000''
         ''query_results_123e4567_e89b_42d3_a456_426614174000''),
      (''job-failed:123e4567-e89b-42d3-a456-426614174000'',
       FailureInfo (ExternalError ''listener failed''))]"
  by code_simp

text \<open>
  C7 fails on the code: the connection is taken before the \<open>try\<close> block (line 182), so
  a job whose worker cannot connect is finished without any event. The job is
  submitted, picked up, and gone from the queue; nothing is emitted.
\<close>

theorem handleJob_connect_failure_no_event:
  "handleJob refusedEnv exampleJob newDBSentinel =
     (Inl (ExternalError ''connect ECONNREFUSED''), newDBSentinel) \<and>
   emitted (snd (handleJob refusedEnv exampleJob newDBSentinel)) = [] \<and>
   createQueryJob quietEnv ''SELECT 1 AS x'' [] newDBSentinel =
     (Inr (jobId exampleJob), newDBSentinel\<lparr>queryQueue := [exampleJob]\<rparr>) \<and>
   processNext refusedEnv (newDBSentinel\<lparr>queryQueue := [exampleJob]\<rparr>) = newDBSentinel"
  by code_simp

subsection \<open>Looking up the table of a job\<close>








subsection \<open>The cleanup sweep\<close>

lemma dropTableIfExists_D:
  "dropTableIfExists env tn db = (r, db') \<Longrightarrow>
     executed db' = executed db @ [DropTableIfExists tn] \<and> job_metadata db' = job_metadata db \<and>
     rowsOf db' = rowsOf db \<and>
     (case r of
        Inl m \<Rightarrow> tables db' = tables db \<and>
                 stmtFault env (length (executed db)) (DropTableIfExists tn) = Some m
      | Inr _ \<Rightarrow> tables db' = filter (\<lambda>t. fst t \<noteq> tn) (tables db) \<and>
                 stmtFault env (length (executed db)) (DropTableIfExists tn) = None)"
  by (auto simp add: dropTableIfExists_def send_def rowsOf_def split: option.splits)

lemma deleteJobMetadata_D:
  "deleteJobMetadata env jid db = (r, db') \<Longrightarrow>
     executed db' = executed db @ [DeleteJobMetadata jid] \<and> tables db' = tables db \<and>
     (case r of
        Inl m \<Rightarrow> job_metadata db' = job_metadata db \<and> rowsOf db' = rowsOf db \<and>
                 (stmtFault env (length (executed db)) (DeleteJobMetadata jid) = Some m \<or>
                  stmtFault env (length (executed db)) (DeleteJobMetadata jid) = None \<and>
                  job_metadata db = None)
      | Inr _ \<Rightarrow> job_metadata db' = Some (filter (\<lambda>r. job_id r \<noteq> jid) (rowsOf db)) \<and>
                 rowsOf db' = filter (\<lambda>r. job_id r \<noteq> jid) (rowsOf db) \<and>
                 stmtFault env (length (executed db)) (DeleteJobMetadata jid) = None)"
  by (auto simp add: deleteJobMetadata_def send_def rowsOf_def split: option.splits)

lemma cleanupRow_D:
  assumes "cleanupRow env (jid, tn) (db, out) = (db', out')"
  shows "\<exists>dropped. executed db' = executed db @ rowStatements (jid, tn) dropped"
    and "set (tables db') \<subseteq> set (tables db)"
    and "\<forall>t\<in>set (tables db). fst t \<noteq> tn \<longrightarrow> t \<in> set (tables db')"
    and "set (rowsOf db') \<subseteq> set (rowsOf db)"
    and "\<forall>r\<in>set (rowsOf db). job_id r \<noteq> jid \<longrightarrow> r \<in> set (rowsOf db')"
    and "job_metadata db \<noteq> None \<longrightarrow> job_metadata db' \<noteq> None"
    and "\<exists>more. out' = out @ more"
    and "(\<forall>n. stmtFault env n (DropTableIfExists tn) = None) \<and>
         (\<forall>n. stmtFault env n (DeleteJobMetadata jid) = None) \<and> job_metadata db \<noteq> None \<longrightarrow>
         tn \<notin> set (tableNames db') \<and> jid \<notin> set (map job_id (rowsOf db'))"
    and "(\<forall>n. stmtFault env n (DropTableIfExists tn) = Some m) \<or>
         (\<forall>n. stmtFault env n (DropTableIfExists tn) = None) \<and>
         (\<forall>n. stmtFault env n (DeleteJobMetadata jid) = Some m) \<longrightarrow>
         ErrorDroppingTable tn m \<in> set out'"
proof -
  obtain r1 db1 where d: "dropTableIfExists env tn db = (r1, db1)"
    by (cases "dropTableIfExists env tn db")
  obtain r2 db2 where e: "deleteJobMetadata env jid db1 = (r2, db2)"
    by (cases "deleteJobMetadata env jid db1")
  note D = dropTableIfExists_D [OF d] and E = deleteJobMetadata_D [OF e]
  from assms d e have res: "(db', out') =
      (case r1 of Inl dropError \<Rightarrow> (db1, out @ [ErrorDroppingTable tn dropError])
       | Inr _ \<Rightarrow> (case r2 of Inl dropError \<Rightarrow> (db2, out @ [ErrorDroppingTable tn dropError])
                   | Inr _ \<Rightarrow> (db2, out)))"
    by (simp add: cleanupRow_def split: sum.splits)
  show "\<exists>dropped. executed db' = executed db @ rowStatements (jid, tn) dropped"
  proof (cases r1)
    case (Inl m)
    with res D have "executed db' = executed db @ rowStatements (jid, tn) False"
      by (simp add: rowStatements_def)
    then show ?thesis ..
  next
    case (Inr u)
    with res D E have "executed db' = executed db @ rowStatements (jid, tn) True"
      by (auto simp add: rowStatements_def split: sum.splits)
    then show ?thesis ..
  qed
  show "set (tables db') \<subseteq> set (tables db)"
    using res D E by (auto split: sum.splits)
  show "\<forall>t\<in>set (tables db). fst t \<noteq> tn \<longrightarrow> t \<in> set (tables db')"
    using res D E by (auto split: sum.splits)
  show "set (rowsOf db') \<subseteq> set (rowsOf db)"
    using res D E by (auto split: sum.splits)
  show "\<forall>r\<in>set (rowsOf db). job_id r \<noteq> jid \<longrightarrow> r \<in> set (rowsOf db')"
    using res D E by (auto split: sum.splits)
  show "job_metadata db \<noteq> None \<longrightarrow> job_metadata db' \<noteq> None"
    using res D E by (auto split: sum.splits)
  show "\<exists>more. out' = out @ more"
    using res by (auto split: sum.splits)
  show "(\<forall>n. stmtFault env n (DropTableIfExists tn) = None) \<and>
         (\<forall>n. stmtFault env n (DeleteJobMetadata jid) = None) \<and> job_metadata db \<noteq> None \<longrightarrow>
         tn \<notin> set (tableNames db') \<and> jid \<notin> set (map job_id (rowsOf db'))"
    using res D E by (auto simp add: tableNames_def split: sum.splits)
  show "(\<forall>n. stmtFault env n (DropTableIfExists tn) = Some m) \<or>
         (\<forall>n. stmtFault env n (DropTableIfExists tn) = None) \<and>
         (\<forall>n. stmtFault env n (DeleteJobMetadata jid) = Some m) \<longrightarrow>
         ErrorDroppingTable tn m \<in> set out'"
    using res D E by (auto split: sum.splits)
qed

lemma sweep_executed:
  "fold (cleanupRow env) rs (db, out) = (db', out') \<Longrightarrow>
     \<exists>flags. length flags = length rs \<and>
       executed db' = executed db @ concat (map2 rowStatements rs flags)"
proof (induction rs arbitrary: db out)
  case Nil
  then show ?case by simp
next
  case (Cons row rs)
  obtain jid tn where row: "row = (jid, tn)" by (cases row)
  obtain db1 out1 where st: "cleanupRow env (jid, tn) (db, out) = (db1, out1)"
    by (cases "cleanupRow env (jid, tn) (db, out)")
  with Cons.prems row have "fold (cleanupRow env) rs (db1, out1) = (db', out')" by simp
  from Cons.IH [OF this] obtain flags where
    f: "length flags = length rs"
      "executed db' = executed db1 @ concat (map2 rowStatements rs flags)"
    by blast
  from cleanupRow_D(1) [OF st] obtain dropped where
    "executed db1 = executed db @ rowStatements (jid, tn) dropped" ..
  with f row have "length (dropped # flags) = length (row # rs) \<and>
      executed db' = executed db @ concat (map2 rowStatements (row # rs) (dropped # flags))"
    by simp
  then show ?case by blast
qed

lemma sweep_keeps:
  "fold (cleanupRow env) rs (db, out) = (db', out') \<Longrightarrow>
     set (tables db') \<subseteq> set (tables db) \<and> set (rowsOf db') \<subseteq> set (rowsOf db) \<and>
     (\<forall>t\<in>set (tables db). fst t \<notin> set (map snd rs) \<longrightarrow> t \<in> set (tables db')) \<and>
     (\<forall>r\<in>set (rowsOf db). job_id r \<notin> set (map fst rs) \<longrightarrow> r \<in> set (rowsOf db')) \<and>
     (job_metadata db \<noteq> None \<longrightarrow> job_metadata db' \<noteq> None) \<and>
     (\<exists>more. out' = out @ more)"
proof (induction rs arbitrary: db out)
  case Nil
  then show ?case by simp
next
  case (Cons row rs)
  obtain jid tn where row: "row = (jid, tn)" by (cases row)
  obtain db1 out1 where st: "cleanupRow env (jid, tn) (db, out) = (db1, out1)"
    by (cases "cleanupRow env (jid, tn) (db, out)")
  with Cons.prems row have "fold (cleanupRow env) rs (db1, out1) = (db', out')" by simp
  note ih = Cons.IH [OF this]
  note k = cleanupRow_D(2-7) [OF st]
  from ih k(1) have "set (tables db') \<subseteq> set (tables db)" by blast
  moreover from ih k(3) have "set (rowsOf db') \<subseteq> set (rowsOf db)" by blast
  moreover from ih k(2) row
  have "\<forall>t\<in>set (tables db). fst t \<notin> set (map snd (row # rs)) \<longrightarrow> t \<in> set (tables db')"
    by simp
  moreover from ih k(4) row
  have "\<forall>r\<in>set (rowsOf db). job_id r \<notin> set (map fst (row # rs)) \<longrightarrow> r \<in> set (rowsOf db')"
    by simp
  moreover from ih k(5) have "job_metadata db \<noteq> None \<longrightarrow> job_metadata db' \<noteq> None" by blast
  moreover from ih k(6) have "\<exists>more. out' = out @ more" by auto
  ultimately show ?case by blast
qed

lemma sweep_cleans:
  assumes "fold (cleanupRow env) rs (db, out) = (db', out')"
    and "(jid, tn) \<in> set rs" and "job_metadata db \<noteq> None"
    and "\<forall>n. stmtFault env n (DropTableIfExists tn) = None"
    and "\<forall>n. stmtFault env n (DeleteJobMetadata jid) = None"
  shows "tn \<notin> set (tableNames db') \<and> jid \<notin> set (map job_id (rowsOf db'))"
  using assms(1-3)
proof (induction rs arbitrary: db out)
  case Nil
  then show ?case by simp
next
  case (Cons row rs)
  obtain j t where row: "row = (j, t)" by (cases row)
  obtain db1 out1 where st: "cleanupRow env (j, t) (db, out) = (db1, out1)"
    by (cases "cleanupRow env (j, t) (db, out)")
  with Cons.prems row have rest: "fold (cleanupRow env) rs (db1, out1) = (db', out')" by simp
  from cleanupRow_D(6) [OF st] Cons.prems have m1: "job_metadata db1 \<noteq> None" by simp
  show ?case
  proof (cases "(jid, tn) \<in> set rs")
    case True
    from Cons.IH [OF rest True m1] show ?thesis .
  next
    case False
    with Cons.prems row have eq: "j = jid" "t = tn" by auto
    from cleanupRow_D(8) [OF st] eq assms(4,5) Cons.prems
    have "tn \<notin> set (tableNames db1) \<and> jid \<notin> set (map job_id (rowsOf db1))" by simp
    moreover from sweep_keeps [OF rest]
    have "set (tables db') \<subseteq> set (tables db1)" "set (rowsOf db') \<subseteq> set (rowsOf db1)"
      by simp_all
    ultimately show ?thesis by (auto simp add: tableNames_def)
  qed
qed

lemma sweep_logs:
  assumes "fold (cleanupRow env) rs (db, out) = (db', out')"
    and "(jid, tn) \<in> set rs"
    and "(\<forall>n. stmtFault env n (DropTableIfExists tn) = Some m) \<or>
         (\<forall>n. stmtFault env n (DropTableIfExists tn) = None) \<and>
         (\<forall>n. stmtFault env n (DeleteJobMetadata jid) = Some m)"
  shows "ErrorDroppingTable tn m \<in> set out'"
  using assms(1-2)
proof (induction rs arbitrary: db out)
  case Nil
  then show ?case by simp
next
  case (Cons row rs)
  obtain j t where row: "row = (j, t)" by (cases row)
  obtain db1 out1 where st: "cleanupRow env (j, t) (db, out) = (db1, out1)"
    by (cases "cleanupRow env (j, t) (db, out)")
  with Cons.prems row have rest: "fold (cleanupRow env) rs (db1, out1) = (db', out')" by simp
  show ?case
  proof (cases "(jid, tn) \<in> set rs")
    case True
    from Cons.IH [OF rest True] show ?thesis .
  next
    case False
    with Cons.prems row have eq: "j = jid" "t = tn" by auto
    from cleanupRow_D(9) [OF st [unfolded eq], of m] assms(3)
    have "ErrorDroppingTable tn m \<in> set out1" by (rule mp)
    moreover from sweep_keeps [OF rest] obtain more where "out' = out1 @ more" by blast
    ultimately show ?thesis by simp
  qed
qed

lemma cleanupTick_timer: "cleanupTimer (cleanupTick env s) = cleanupTimer s"
  by (auto simp add: cleanupTick_def cleanupOldTables_def
        split: prod.splits sum.splits option.splits)

text \<open>
  C9. In a sweep whose connection and selection go through, the selected rows are
  exactly the rows of \<open>job_metadata\<close> with \<open>created_at\<close> more than the TTL before the
  clock. The statements sent are the selection and then, for each selected row in turn,
  the \<open>DROP TABLE IF EXISTS\<close> of its table followed, if the \<open>DROP\<close> went through, by the
  \<open>DELETE\<close> of its row; every selected row gets its turn, whatever happened to the rows
  before it. A selected row whose two statements do not fail loses its table (whether
  or not the table existed) and its metadata row; a failing \<open>DROP\<close> or \<open>DELETE\<close> is
  written to the console. The sweep returns normally, and the timer is as before. With
  \<open>job_id\<close> and \<open>table_name\<close> unique among the metadata rows, a row that is not older
  than the TTL stays, and its table stays as it was.
\<close>

theorem cleanupOldTables_sweep:
  assumes c: "connectFault env = None"
    and f: "stmtFault env (length (executed (dbPool s))) (SelectOldJobs (tableTTLHours s)) = None"
    and m: "job_metadata (dbPool s) = Some ms"
    and dj: "distinct (map job_id ms)" and dt: "distinct (map table_name ms)"
    and old: "old = filter (isOld env (tableTTLHours s)) ms"
    and s': "s' = snd (cleanupOldTables env s)"
  shows "fst (cleanupOldTables env s) = Inr () \<and> cleanupTick env s = s' \<and>
     cleanupTimer s' = cleanupTimer s \<and>
     (\<exists>flags. length flags = length old \<and>
        executed (dbPool s') =
          executed (dbPool s) @ SelectOldJobs (tableTTLHours s) #
            concat (map2 rowStatements (map (\<lambda>r. (job_id r, table_name r)) old) flags)) \<and>
     (\<forall>r\<in>set old.
        (\<forall>n. stmtFault env n (DropTableIfExists (table_name r)) = None) \<and>
        (\<forall>n. stmtFault env n (DeleteJobMetadata (job_id r)) = None) \<longrightarrow>
        table_name r \<notin> set (tableNames (dbPool s')) \<and>
        job_id r \<notin> set (map job_id (rowsOf (dbPool s')))) \<and>
     (\<forall>r\<in>set old. \<forall>e.
        (\<forall>n. stmtFault env n (DropTableIfExists (table_name r)) = Some e) \<or>
        (\<forall>n. stmtFault env n (DropTableIfExists (table_name r)) = None) \<and>
        (\<forall>n. stmtFault env n (DeleteJobMetadata (job_id r)) = Some e) \<longrightarrow>
        ErrorDroppingTable (table_name r) e \<in> set (console s')) \<and>
     (\<forall>r\<in>set ms. \<not> isOld env (tableTTLHours s) r \<longrightarrow>
        r \<in> set (rowsOf (dbPool s')) \<and>
        (\<forall>t\<in>set (tables (dbPool s)). fst t = table_name r \<longrightarrow> t \<in> set (tables (dbPool s'))))"
proof -
  define sel where "sel = map (\<lambda>r. (job_id r, table_name r)) old"
  define db1 where
    "db1 = (dbPool s)\<lparr>executed := executed (dbPool s) @ [SelectOldJobs (tableTTLHours s)]\<rparr>"
  have q: "selectOldJobs env (tableTTLHours s) (dbPool s) = (Inr sel, db1)"
    using f m by (simp add: selectOldJobs_def send_def sel_def db1_def old)
  obtain db2 out where fo: "fold (cleanupRow env) sel (db1, []) = (db2, out)"
    by (cases "fold (cleanupRow env) sel (db1, [])")
  have res: "cleanupOldTables env s = (Inr (), s\<lparr>dbPool := db2, console := console s @ out\<rparr>)"
    using c q fo by (simp add: cleanupOldTables_def)
  then have s2: "s' = s\<lparr>dbPool := db2, console := console s @ out\<rparr>"
    by (simp add: s')
  have db1_facts: "executed db1 = executed (dbPool s) @ [SelectOldJobs (tableTTLHours s)]"
    "tables db1 = tables (dbPool s)" "rowsOf db1 = ms" "job_metadata db1 \<noteq> None"
    using m by (simp_all add: db1_def rowsOf_def)
  have p1: "fst (cleanupOldTables env s) = Inr ()" using res by simp
  have p2: "cleanupTick env s = s'" using res s2 by (simp add: cleanupTick_def)
  have p3: "cleanupTimer s' = cleanupTimer s" using s2 by simp
  have p4: "\<exists>flags. length flags = length old \<and>
        executed (dbPool s') =
          executed (dbPool s) @ SelectOldJobs (tableTTLHours s) #
            concat (map2 rowStatements (map (\<lambda>r. (job_id r, table_name r)) old) flags)"
    using sweep_executed [OF fo] db1_facts(1) s2 by (auto simp add: sel_def)
  have p5: "\<forall>r\<in>set old.
        (\<forall>n. stmtFault env n (DropTableIfExists (table_name r)) = None) \<and>
        (\<forall>n. stmtFault env n (DeleteJobMetadata (job_id r)) = None) \<longrightarrow>
        table_name r \<notin> set (tableNames (dbPool s')) \<and>
        job_id r \<notin> set (map job_id (rowsOf (dbPool s')))"
  proof (intro ballI impI)
    fix r assume r: "r \<in> set old"
      and n: "(\<forall>n. stmtFault env n (DropTableIfExists (table_name r)) = None) \<and>
        (\<forall>n. stmtFault env n (DeleteJobMetadata (job_id r)) = None)"
    from r have "(job_id r, table_name r) \<in> set sel" by (auto simp add: sel_def)
    from sweep_cleans [OF fo this db1_facts(4)] n s2
    show "table_name r \<notin> set (tableNames (dbPool s')) \<and>
        job_id r \<notin> set (map job_id (rowsOf (dbPool s')))" by simp
  qed
  have p6: "\<forall>r\<in>set old. \<forall>e.
        (\<forall>n. stmtFault env n (DropTableIfExists (table_name r)) = Some e) \<or>
        (\<forall>n. stmtFault env n (DropTableIfExists (table_name r)) = None) \<and>
        (\<forall>n. stmtFault env n (DeleteJobMetadata (job_id r)) = Some e) \<longrightarrow>
        ErrorDroppingTable (table_name r) e \<in> set (console s')"
  proof (intro ballI allI impI)
    fix r e assume r: "r \<in> set old"
      and n: "(\<forall>n. stmtFault env n (DropTableIfExists (table_name r)) = Some e) \<or>
        (\<forall>n. stmtFault env n (DropTableIfExists (table_name r)) = None) \<and>
        (\<forall>n. stmtFault env n (DeleteJobMetadata (job_id r)) = Some e)"
    from r have "(job_id r, table_name r) \<in> set sel" by (auto simp add: sel_def)
    from sweep_logs [OF fo this n] s2
    show "ErrorDroppingTable (table_name r) e \<in> set (console s')" by simp
  qed
  have p7: "\<forall>r\<in>set ms. \<not> isOld env (tableTTLHours s) r \<longrightarrow>
        r \<in> set (rowsOf (dbPool s')) \<and>
        (\<forall>t\<in>set (tables (dbPool s)). fst t = table_name r \<longrightarrow> t \<in> set (tables (dbPool s')))"
  proof (intro ballI impI)
    fix r assume r: "r \<in> set ms" and fresh: "\<not> isOld env (tableTTLHours s) r"
    have ij: "inj_on job_id (set ms)" and it: "inj_on table_name (set ms)"
      using dj dt by (simp_all add: distinct_map)
    have nj: "job_id r \<notin> set (map fst sel)"
    proof
      assume "job_id r \<in> set (map fst sel)"
      then obtain r' where r': "r' \<in> set old" "job_id r' = job_id r"
        by (auto simp add: sel_def)
      with old have "r' \<in> set ms" "isOld env (tableTTLHours s) r'" by simp_all
      with ij r r'(2) fresh show False by (auto dest: inj_onD)
    qed
    have nt: "table_name r \<notin> set (map snd sel)"
    proof
      assume "table_name r \<in> set (map snd sel)"
      then obtain r' where r': "r' \<in> set old" "table_name r' = table_name r"
        by (auto simp add: sel_def)
      with old have "r' \<in> set ms" "isOld env (tableTTLHours s) r'" by simp_all
      with it r r'(2) fresh show False by (auto dest: inj_onD)
    qed
    note k = sweep_keeps [OF fo]
    from k r nj db1_facts(3) s2 have a: "r \<in> set (rowsOf (dbPool s'))" by simp
    from k nt db1_facts(2) s2
    have b: "\<forall>t\<in>set (tables (dbPool s)). fst t = table_name r \<longrightarrow> t \<in> set (tables (dbPool s'))"
      by simp
    from a b show "r \<in> set (rowsOf (dbPool s')) \<and>
        (\<forall>t\<in>set (tables (dbPool s)). fst t = table_name r \<longrightarrow> t \<in> set (tables (dbPool s')))" ..
  qed
  from p1 p2 p3 p4 p5 p6 p7 show ?thesis by blast
qed

theorem cleanupOldTables_sweep_witness:
  "connectFault sweepEnv = None \<and>
   stmtFault sweepEnv (length (executed (dbPool sweepSentinel)))
     (SelectOldJobs (tableTTLHours sweepSentinel)) = None \<and>
   job_metadata (dbPool sweepSentinel) = Some sweepRows \<and>
   distinct (map job_id sweepRows) \<and> distinct (map table_name sweepRows) \<and>
   map job_id (filter (isOld sweepEnv (tableTTLHours sweepSentinel)) sweepRows) =
     [uuidOf (CHR ''a''), uuidOf (CHR ''b''), uuidOf (CHR ''d'')] \<and>
   fst (cleanupOldTables sweepEnv sweepSentinel) = Inr () \<and>
   cleanupTick sweepEnv sweepSentinel = sweptSentinel \<and>
   cleanupTimer sweptSentinel = Some 3600000 \<and>
   resultTableName (uuidOf (CHR ''b'')) \<notin> set (tableNames (dbPool sweptSentinel)) \<and>
   uuidOf (CHR ''b'') \<notin> set (map job_id (rowsOf (dbPool sweptSentinel))) \<and>
   uuidOf (CHR ''d'') \<notin> set (map job_id (rowsOf (dbPool sweptSentinel))) \<and>
   ErrorDroppingTable (resultTableName (uuidOf (CHR ''a''))) ''lock timeout'' \<in>
     set (console sweptSentinel) \<and>
   sweepRows ! 2 \<in> set (rowsOf (dbPool sweptSentinel)) \<and>
   (resultTableName (uuidOf (CHR ''c'')), [(''x'', ''INTEGER'')], []) \<in>
     set (tables (dbPool sweptSentinel))"
proof -
  have h1: "connectFault sweepEnv = None" by code_simp
  have h2: "stmtFault sweepEnv (length (executed (dbPool sweepSentinel)))
     (SelectOldJobs (tableTTLHours sweepSentinel)) = None" by code_simp
  have h3: "job_metadata (dbPool sweepSentinel) = Some sweepRows" by code_simp
  have h4: "distinct (map job_id sweepRows)" by code_simp
  have h5: "distinct (map table_name sweepRows)" by code_simp
  have h6: "sweptSentinel = snd (cleanupOldTables sweepEnv sweepSentinel)"
    by (simp add: sweptSentinel_def)
  note T = cleanupOldTables_sweep [OF h1 h2 h3 h4 h5 refl h6]
  have o: "map job_id (filter (isOld sweepEnv (tableTTLHours sweepSentinel)) sweepRows) =
     [uuidOf (CHR ''a''), uuidOf (CHR ''b''), uuidOf (CHR ''d'')]" by code_simp
  have tm: "cleanupTimer sweepSentinel = Some 3600000" by code_simp
  have names: "job_id (sweepRows ! 0) = uuidOf (CHR ''a'')"
    "table_name (sweepRows ! 0) = resultTableName (uuidOf (CHR ''a''))"
    "job_id (sweepRows ! 1) = uuidOf (CHR ''b'')"
    "table_name (sweepRows ! 1) = resultTableName (uuidOf (CHR ''b''))"
    "table_name (sweepRows ! 2) = resultTableName (uuidOf (CHR ''c''))"
    "job_id (sweepRows ! 3) = uuidOf (CHR ''d'')"
    "job_id (sweepRows ! Suc 0) = uuidOf (CHR ''b'')"
    "table_name (sweepRows ! Suc 0) = resultTableName (uuidOf (CHR ''b''))"
    by (simp_all add: sweepRows_def)
  have mem: "sweepRows ! 0 \<in> set (filter (isOld sweepEnv (tableTTLHours sweepSentinel)) sweepRows)"
    "sweepRows ! 1 \<in> set (filter (isOld sweepEnv (tableTTLHours sweepSentinel)) sweepRows)"
    "sweepRows ! 3 \<in> set (filter (isOld sweepEnv (tableTTLHours sweepSentinel)) sweepRows)"
    "sweepRows ! 2 \<in> set sweepRows"
    "\<not> isOld sweepEnv (tableTTLHours sweepSentinel) (sweepRows ! 2)"
    "(resultTableName (uuidOf (CHR ''c'')), [(''x'', ''INTEGER'')], []) \<in>
       set (tables (dbPool sweepSentinel))"
    by code_simp+
  have quiet: "\<forall>n. stmtFault sweepEnv n (DropTableIfExists (table_name (sweepRows ! 1))) = None"
    "\<forall>n. stmtFault sweepEnv n (DeleteJobMetadata (job_id (sweepRows ! 1))) = None"
    "\<forall>n. stmtFault sweepEnv n (DropTableIfExists (table_name (sweepRows ! 3))) = None"
    "\<forall>n. stmtFault sweepEnv n (DeleteJobMetadata (job_id (sweepRows ! 3))) = None"
    "\<forall>n. stmtFault sweepEnv n (DropTableIfExists (table_name (sweepRows ! 0))) =
       Some ''lock timeout''"
    by (simp_all add: sweepEnv_def quietEnv_def sweepRows_def resultTableName_def
          replaceHyphens_def uuidOf_def)
  from T have a: "fst (cleanupOldTables sweepEnv sweepSentinel) = Inr ()"
    "cleanupTick sweepEnv sweepSentinel = sweptSentinel"
    "cleanupTimer sweptSentinel = cleanupTimer sweepSentinel"
    by blast+
  from T mem(2) quiet(1,2)
  have b: "table_name (sweepRows ! 1) \<notin> set (tableNames (dbPool sweptSentinel)) \<and>
      job_id (sweepRows ! 1) \<notin> set (map job_id (rowsOf (dbPool sweptSentinel)))"
    by blast
  from T mem(3) quiet(3,4)
  have d: "job_id (sweepRows ! 3) \<notin> set (map job_id (rowsOf (dbPool sweptSentinel)))"
    by blast
  from T mem(1) quiet(5)
  have l: "ErrorDroppingTable (table_name (sweepRows ! 0)) ''lock timeout'' \<in>
      set (console sweptSentinel)"
    by blast
  from T mem(4,5)
  have k: "sweepRows ! 2 \<in> set (rowsOf (dbPool sweptSentinel)) \<and>
      (\<forall>t\<in>set (tables (dbPool sweepSentinel)).
         fst t = table_name (sweepRows ! 2) \<longrightarrow> t \<in> set (tables (dbPool sweptSentinel)))"
    by blast
  with mem(6) names(5)
  have k2: "(resultTableName (uuidOf (CHR ''c'')), [(''x'', ''INTEGER'')], []) \<in>
      set (tables (dbPool sweptSentinel))"
    by auto
  from h1 h2 h3 h4 h5 o a tm b d l k k2 show ?thesis
    by (simp add: names)
qed

end
